theory Spec2Isabelle
  imports Complex_Main "HOL-Library.Sublist"
begin

section \<open>Numbers, strings and instrument rules\<close>

text \<open>
  The TypeScript sources compute with IEEE doubles.  The embedding computes with exact
  reals wherever the source computes with finite numbers: \<open>Math.floor\<close> is \<open>\<lfloor>_\<rfloor>\<close>,
  \<open>Math.ceil\<close> is \<open>\<lceil>_\<rceil>\<close>, \<open>Math.pow(10, q)\<close> is \<open>10 ^ q\<close> and \<open>Math.pow(10, -q)\<close> is
  \<open>1 / 10 ^ q\<close>.  A division by zero yields \<open>Infinity\<close> or \<open>NaN\<close> in the source, never HOL's
  \<open>x / 0 = 0\<close>: the functions on real numbers below answer \<open>None\<close> there, and \<open>buy\<close>, which
  divides by a price that the exchange reports, is modelled on the type \<open>jsnum\<close> of all
  JavaScript numbers.
\<close>


text \<open>An entry of \<open>SYMBOL_PRECISION\<close>: \<open>{ quantity, price, minNotional }\<close>.  The field
  \<open>price\<close>, the number of decimals of a price, is named \<open>price_decimals\<close> here; no function
  reads it.\<close>

record precision_config =
  quantity :: nat
  price_decimals :: nat
  minNotional :: real

type_synonym precision_table = "string \<Rightarrow> precision_config option"

text \<open>\<open>SYMBOL_PRECISION\<close> of \<open>buy.ts\<close> (lines 97-104).\<close>

definition buy_SYMBOL_PRECISION :: precision_table where
  "buy_SYMBOL_PRECISION = map_of
     [(''BTCUSDT'', \<lparr>quantity = 3, price_decimals = 1, minNotional = 100\<rparr>),
      (''ETHUSDT'', \<lparr>quantity = 2, price_decimals = 2, minNotional = 100\<rparr>),
      (''BNBUSDT'', \<lparr>quantity = 2, price_decimals = 2, minNotional = 100\<rparr>),
      (''SOLUSDT'', \<lparr>quantity = 2, price_decimals = 3, minNotional = 100\<rparr>),
      (''ADAUSDT'', \<lparr>quantity = 0, price_decimals = 4, minNotional = 100\<rparr>),
      (''DOGEUSDT'', \<lparr>quantity = 0, price_decimals = 5, minNotional = 100\<rparr>)]"

text \<open>\<open>SYMBOL_PRECISION\<close> of \<open>sell.ts\<close> and \<open>close_position.ts\<close> (BNB has one decimal there).\<close>

definition sell_SYMBOL_PRECISION :: precision_table where
  "sell_SYMBOL_PRECISION = map_of
     [(''BTCUSDT'', \<lparr>quantity = 3, price_decimals = 1, minNotional = 100\<rparr>),
      (''ETHUSDT'', \<lparr>quantity = 2, price_decimals = 2, minNotional = 100\<rparr>),
      (''BNBUSDT'', \<lparr>quantity = 1, price_decimals = 2, minNotional = 100\<rparr>),
      (''SOLUSDT'', \<lparr>quantity = 2, price_decimals = 3, minNotional = 100\<rparr>),
      (''ADAUSDT'', \<lparr>quantity = 0, price_decimals = 4, minNotional = 100\<rparr>),
      (''DOGEUSDT'', \<lparr>quantity = 0, price_decimals = 5, minNotional = 100\<rparr>)]"

text \<open>\<open>SYMBOL_PRECISION[symbol] || { quantity: 3, price: 2, minNotional: 100 }\<close>.  The table
  is a parameter of every function below, so that a statement about every instrument rule
  quantifies over it.\<close>

definition config_of :: "precision_table \<Rightarrow> string \<Rightarrow> precision_config" where
  "config_of tbl symbol =
     (case tbl symbol of
        Some config \<Rightarrow> config
      | None \<Rightarrow> \<lparr>quantity = 3, price_decimals = 2, minNotional = 100\<rparr>)"

text \<open>\<open>Math.pow(10, -(SYMBOL_PRECISION[binanceSymbol]?.quantity || 3))\<close>: a missing entry
  and a quantity of \<open>0\<close> are both falsy, and both give three decimals.\<close>

definition minAmount_of :: "precision_table \<Rightarrow> string \<Rightarrow> real" where
  "minAmount_of tbl binanceSymbol =
     (case tbl binanceSymbol of
        None \<Rightarrow> 1 / 10 ^ 3
      | Some config \<Rightarrow> if quantity config = 0 then 1 / 10 ^ 3 else 1 / 10 ^ quantity config)"

text \<open>\<open>symbol.replace("/", "")\<close> removes the first slash only.\<close>

definition replace_slash :: "string \<Rightarrow> string" where
  "replace_slash symbol = remove1 (CHR ''/'') symbol"

text \<open>\<open>s.includes(sub)\<close>.\<close>

fun str_includes :: "string \<Rightarrow> string \<Rightarrow> bool" where
  "str_includes [] sub = (sub = [])"
| "str_includes (c # cs) sub = (prefix sub (c # cs) \<or> str_includes cs sub)"


section \<open>The numbers of JavaScript\<close>

text \<open>
  A JavaScript number is a finite number, the negative zero, an infinity or \<open>NaN\<close>;
  \<open>Fin 0\<close> is the positive zero.  A finite result is the exact real (no rounding, no
  overflow).  The other values follow ECMAScript: the sign of a product or of a quotient is
  the exclusive or of the signs of its operands; a finite number that is not zero divided by a
  zero is an infinity; \<open>0 / 0\<close>, \<open>0 * Infinity\<close>, \<open>Infinity / Infinity\<close> and
  \<open>Infinity - Infinity\<close> are \<open>NaN\<close>; an operation on \<open>NaN\<close> is \<open>NaN\<close>; every comparison
  with \<open>NaN\<close> is false; the two zeros compare equal.
\<close>

datatype jsnum = Fin real | NegZero | PosInf | NegInf | NaN

definition js_finite :: "jsnum \<Rightarrow> bool" where
  "js_finite x = (case x of Fin r \<Rightarrow> True | NegZero \<Rightarrow> True | _ \<Rightarrow> False)"

text \<open>The real number that a finite value stands for.\<close>

definition js_value :: "jsnum \<Rightarrow> real" where
  "js_value x = (case x of Fin r \<Rightarrow> r | _ \<Rightarrow> 0)"

text \<open>The sign bit.\<close>

definition js_negative :: "jsnum \<Rightarrow> bool" where
  "js_negative x = (case x of Fin r \<Rightarrow> r < 0 | NegZero \<Rightarrow> True | NegInf \<Rightarrow> True | _ \<Rightarrow> False)"

text \<open>The finite number \<open>r\<close> with the given sign bit when it is a zero, and the infinity
  with the given sign bit.\<close>

definition js_signed :: "bool \<Rightarrow> real \<Rightarrow> jsnum" where
  "js_signed negative r = (if r = 0 \<and> negative then NegZero else Fin r)"

definition js_infinity :: "bool \<Rightarrow> jsnum" where
  "js_infinity negative = (if negative then NegInf else PosInf)"

text \<open>\<open>x * y\<close>.\<close>

definition js_mul :: "jsnum \<Rightarrow> jsnum \<Rightarrow> jsnum" where
  "js_mul x y =
     (let negative = (js_negative x \<noteq> js_negative y)
      in if x = NaN \<or> y = NaN then NaN
         else if js_finite x \<and> js_finite y then js_signed negative (js_value x * js_value y)
         else if (js_finite x \<and> js_value x = 0) \<or> (js_finite y \<and> js_value y = 0) then NaN
         else js_infinity negative)"

text \<open>\<open>x / y\<close>.\<close>

definition js_div :: "jsnum \<Rightarrow> jsnum \<Rightarrow> jsnum" where
  "js_div x y =
     (let negative = (js_negative x \<noteq> js_negative y)
      in if x = NaN \<or> y = NaN then NaN
         else if js_finite x \<and> js_finite y
         then (if js_value y = 0
               then (if js_value x = 0 then NaN else js_infinity negative)
               else js_signed negative (js_value x / js_value y))
         else if js_finite x then js_signed negative 0
         else if js_finite y then js_infinity negative
         else NaN)"

text \<open>\<open>x + y\<close>: a sum of finite numbers that is zero is the positive zero unless both
  operands are the negative zero.\<close>

definition js_add :: "jsnum \<Rightarrow> jsnum \<Rightarrow> jsnum" where
  "js_add x y =
     (if x = NaN \<or> y = NaN then NaN
      else if js_finite x \<and> js_finite y
      then (if x = NegZero \<and> y = NegZero then NegZero else Fin (js_value x + js_value y))
      else if js_finite y then x
      else if js_finite x then y
      else if x = y then x
      else NaN)"

text \<open>\<open>Math.floor(x)\<close> and \<open>Math.ceil(x)\<close>; \<open>Math.ceil\<close> of a number between \<open>-1\<close> and
  \<open>0\<close> is the negative zero.\<close>

definition js_floor :: "jsnum \<Rightarrow> jsnum" where
  "js_floor x = (case x of Fin r \<Rightarrow> Fin (of_int \<lfloor>r\<rfloor>) | other \<Rightarrow> other)"

definition js_ceil :: "jsnum \<Rightarrow> jsnum" where
  "js_ceil x = (case x of Fin r \<Rightarrow> js_signed (r < 0) (of_int \<lceil>r\<rceil>) | other \<Rightarrow> other)"

text \<open>\<open>x < y\<close>, \<open>x <= y\<close> and \<open>x === y\<close>.\<close>

definition js_lt :: "jsnum \<Rightarrow> jsnum \<Rightarrow> bool" where
  "js_lt x y =
     (if x = NaN \<or> y = NaN then False
      else if js_finite x \<and> js_finite y then js_value x < js_value y
      else if x = NegInf then y \<noteq> NegInf
      else if y = PosInf then x \<noteq> PosInf
      else False)"

definition js_le :: "jsnum \<Rightarrow> jsnum \<Rightarrow> bool" where
  "js_le x y = (x \<noteq> NaN \<and> y \<noteq> NaN \<and> \<not> js_lt y x)"

definition js_eq :: "jsnum \<Rightarrow> jsnum \<Rightarrow> bool" where
  "js_eq x y = (x \<noteq> NaN \<and> y \<noteq> NaN \<and> \<not> js_lt x y \<and> \<not> js_lt y x)"

text \<open>\<open>Math.min(x, y)\<close>; of the two zeros it is the negative one.\<close>

definition js_min :: "jsnum \<Rightarrow> jsnum \<Rightarrow> jsnum" where
  "js_min x y =
     (if x = NaN \<or> y = NaN then NaN
      else if js_lt y x then y
      else if js_lt x y then x
      else if y = NegZero then y
      else x)"

section \<open>The quantizer of \<open>buy.ts\<close>\<close>

text \<open>\<open>adjustPrecision\<close>, \<open>buy.ts\<close> lines 109-119: plain truncation to the grid.\<close>

definition buy_adjustPrecision :: "precision_table \<Rightarrow> real \<Rightarrow> string \<Rightarrow> real" where
  "buy_adjustPrecision tbl amount symbol =
     (let config = config_of tbl symbol;
          factor = 10 ^ quantity config;
          adjusted = of_int \<lfloor>amount * factor\<rfloor> / factor
      in adjusted)"

datatype adjustment_type = AdjNone | AdjAmount | AdjLeverage | AdjBoth | AdjMin | AdjAll | AdjPercentage

record buy_adjustment =
  ba_adjustedAmount :: real
  ba_adjustedLeverage :: real
  ba_adjustmentType :: adjustment_type

text \<open>\<open>smartAdjustOrderForMinNotional\<close>, lines 145-196, on real numbers.  \<open>None\<close> is the
  division \<open>config.minNotional / currentPrice\<close> at \<open>currentPrice = 0\<close>, whose result is not a
  real number.\<close>

definition buy_smartAdjustOrderForMinNotional ::
  "precision_table \<Rightarrow> real \<Rightarrow> string \<Rightarrow> real \<Rightarrow> real \<Rightarrow> buy_adjustment option" where
  "buy_smartAdjustOrderForMinNotional tbl amount symbol currentPrice leverage =
     (let binanceSymbol = replace_slash symbol;
          config = config_of tbl binanceSymbol;
          currentNotional = amount * currentPrice
      in if currentNotional \<ge> minNotional config
         then Some \<lparr>ba_adjustedAmount = amount, ba_adjustedLeverage = leverage, ba_adjustmentType = AdjNone\<rparr>
         else if currentPrice = 0 then None
         else
           (let requiredMinAmount = minNotional config / currentPrice;
                adjustedRequiredAmount = buy_adjustPrecision tbl requiredMinAmount binanceSymbol;
                newNotional = adjustedRequiredAmount * currentPrice
            in if newNotional < minNotional config
               then (let minIncrement = 1 / 10 ^ quantity config;
                         finalAdjustedAmount = adjustedRequiredAmount + minIncrement
                     in Some \<lparr>ba_adjustedAmount = finalAdjustedAmount, ba_adjustedLeverage = leverage,
                               ba_adjustmentType = AdjAmount\<rparr>)
               else Some \<lparr>ba_adjustedAmount = adjustedRequiredAmount, ba_adjustedLeverage = leverage,
                          ba_adjustmentType = AdjAmount\<rparr>))"

text \<open>
  The same functions on all JavaScript numbers, as \<open>buy\<close> calls them.  On finite arguments
  (and a price that is not zero) they compute what the functions on real numbers compute
  (lemmas \<open>buy_adjustPrecision_num_Fin\<close> and \<open>buy_smartAdjust_num_Fin\<close>).
\<close>

definition buy_adjustPrecision_num :: "precision_table \<Rightarrow> jsnum \<Rightarrow> string \<Rightarrow> jsnum" where
  "buy_adjustPrecision_num tbl amount symbol =
     (let config = config_of tbl symbol;
          factor = Fin (10 ^ quantity config);
          adjusted = js_div (js_floor (js_mul amount factor)) factor
      in adjusted)"

text \<open>\<open>checkMinNotional\<close>, lines 124-140.  \<open>valid\<close> is false exactly when
  \<open>notional < config.minNotional\<close>; the reason then quotes the notional, the minimum and the
  quantized required amount.\<close>

datatype notional_check = NotionalValid | NotionalInvalid jsnum real jsnum

definition buy_checkMinNotional ::
  "precision_table \<Rightarrow> jsnum \<Rightarrow> string \<Rightarrow> jsnum \<Rightarrow> notional_check" where
  "buy_checkMinNotional tbl amount symbol price =
     (let config = config_of tbl symbol;
          notional = js_mul amount price
      in if js_lt notional (Fin (minNotional config))
         then (let requiredAmount = js_div (Fin (minNotional config)) price;
                   adjustedRequiredAmount = buy_adjustPrecision_num tbl requiredAmount symbol
               in NotionalInvalid notional (minNotional config) adjustedRequiredAmount)
         else NotionalValid)"

record num_adjustment =
  na_adjustedAmount :: jsnum
  na_adjustedLeverage :: jsnum
  na_adjustmentType :: adjustment_type

definition buy_smartAdjustOrderForMinNotional_num ::
  "precision_table \<Rightarrow> jsnum \<Rightarrow> string \<Rightarrow> jsnum \<Rightarrow> jsnum \<Rightarrow> num_adjustment" where
  "buy_smartAdjustOrderForMinNotional_num tbl amount symbol currentPrice leverage =
     (let binanceSymbol = replace_slash symbol;
          config = config_of tbl binanceSymbol;
          currentNotional = js_mul amount currentPrice
      in if js_le (Fin (minNotional config)) currentNotional
         then \<lparr>na_adjustedAmount = amount, na_adjustedLeverage = leverage,
               na_adjustmentType = AdjNone\<rparr>
         else
           (let requiredMinAmount = js_div (Fin (minNotional config)) currentPrice;
                adjustedRequiredAmount =
                  buy_adjustPrecision_num tbl requiredMinAmount binanceSymbol;
                newNotional = js_mul adjustedRequiredAmount currentPrice
            in if js_lt newNotional (Fin (minNotional config))
               then (let minIncrement = Fin (1 / 10 ^ quantity config);
                         finalAdjustedAmount = js_add adjustedRequiredAmount minIncrement
                     in \<lparr>na_adjustedAmount = finalAdjustedAmount, na_adjustedLeverage = leverage,
                         na_adjustmentType = AdjAmount\<rparr>)
               else \<lparr>na_adjustedAmount = adjustedRequiredAmount, na_adjustedLeverage = leverage,
                     na_adjustmentType = AdjAmount\<rparr>))"

section \<open>The quantizer of \<open>sell.ts\<close>\<close>

text \<open>\<open>adjustPrecision\<close>, \<open>sell.ts\<close> lines 43-56 (and, word for word,
  \<open>close_position.ts\<close> lines 36-50): truncation, then the minimal unit instead of a zero.\<close>

definition sell_adjustPrecision :: "precision_table \<Rightarrow> real \<Rightarrow> string \<Rightarrow> real" where
  "sell_adjustPrecision tbl amount symbol =
     (let config = config_of tbl symbol;
          factor = 10 ^ quantity config;
          adjusted = of_int \<lfloor>amount * factor\<rfloor> / factor
      in if adjusted = 0 \<and> amount > 0 then 1 / 10 ^ quantity config else adjusted)"

record sell_adjustment =
  sa_adjustedAmount :: real
  sa_adjustmentType :: adjustment_type

text \<open>\<open>smartAdjustAmount\<close>, \<open>sell.ts\<close> lines 74-125.  The percentage computed at line 90
  only feeds the log line and the reason text.\<close>

definition sell_smartAdjustAmount ::
  "precision_table \<Rightarrow> real \<Rightarrow> string \<Rightarrow> real \<Rightarrow> sell_adjustment" where
  "sell_smartAdjustAmount tbl amount symbol positionSize =
     (let binanceSymbol = replace_slash symbol;
          config = config_of tbl binanceSymbol;
          minAmount = 1 / 10 ^ quantity config;
          adjustedAmount = sell_adjustPrecision tbl amount binanceSymbol;
          rest = (if adjustedAmount > positionSize
                  then \<lparr>sa_adjustedAmount = sell_adjustPrecision tbl positionSize binanceSymbol,
                        sa_adjustmentType = AdjPercentage\<rparr>
                  else \<lparr>sa_adjustedAmount = adjustedAmount, sa_adjustmentType = AdjNone\<rparr>)
      in if adjustedAmount = 0 \<or> adjustedAmount < minAmount
         then (if positionSize \<ge> minAmount
               then \<lparr>sa_adjustedAmount = minAmount, sa_adjustmentType = AdjMin\<rparr>
               else if positionSize > 0
               then (let wholePosition = sell_adjustPrecision tbl positionSize binanceSymbol
                     in \<lparr>sa_adjustedAmount = (if wholePosition = 0 then positionSize else wholePosition),
                         sa_adjustmentType = AdjAll\<rparr>)
               else rest)
         else rest)"


section \<open>The exchange, errors and order parameters\<close>

text \<open>
  A thrown \<open>Error\<close>: its \<open>message\<close> and, for a rejected HTTP call, the exchange's own text
  \<open>error.response?.data?.msg\<close>.
\<close>

record js_error =
  err_message :: string
  err_response_msg :: "string option"

text \<open>\<open>error?.response?.data?.msg || error.message\<close>: an empty text is falsy.\<close>

definition response_or_message :: "js_error \<Rightarrow> string" where
  "response_or_message e =
     (case err_response_msg e of
        Some msg \<Rightarrow> if msg = [] then err_message e else msg
      | None \<Rightarrow> err_message e)"

datatype position_mode = ONE_WAY | DUAL_SIDE
datatype position_side = LONG | SHORT
datatype order_side = BUY | SELL
datatype order_type = LIMIT | MARKET

text \<open>The extra parameters of an order.  \<open>quantity\<close> is \<open>adjustedAmount.toString()\<close>, kept as
  the number.\<close>

record order_params =
  op_quantity :: jsnum
  op_positionSide :: "position_side option"
  op_reduceOnly :: "bool option"
  op_price :: "real option"
  op_timeInForce :: "string option"

record order_request =
  or_symbol :: string
  or_side :: order_side
  or_type :: order_type
  or_params :: order_params

text \<open>\<open>response.data\<close> of \<open>newOrder\<close>, its numeric texts already parsed; \<open>None\<close> is a
  missing or empty field.\<close>

record order_data =
  od_orderId :: "string option"
  od_avgPrice :: "real option"
  od_price :: "real option"
  od_executedQty :: "real option"
  od_origQty :: "real option"

text \<open>A position as \<open>fetchPositions\<close> returns it (\<open>positions.ts\<close>); only the fields read by
  the closing functions.\<close>

record position =
  pos_symbol :: string
  pos_side :: string
  pos_contracts :: real

text \<open>
  The exchange and the SDK are collaborators outside the sources; the model takes their
  answers as a parameter.  A call that may throw answers \<open>Some error\<close> or \<open>Inl error\<close>.
  \<open>ex_positionMode\<close> and \<open>ex_getPositionModeSdk\<close> are \<open>None\<close> when the client has no
  such method, and otherwise answer the flag \<open>dualSidePosition\<close> (\<open>None\<close> when the answer
  lacks it).  \<open>ex_restPositionSide\<close> answers \<open>resp.ok\<close> and the flag.  \<open>ex_markPrice\<close>
  answers \<open>parseFloat(ticker.markPrice)\<close>, which is any JavaScript number.  \<open>ex_newOrder\<close> is
  asked with the number of the attempt and the request.
\<close>

record exchange =
  ex_ensureTimeSync :: "js_error option"
  ex_getBinanceInstance :: "js_error option"
  ex_positionMode :: "(js_error + bool option) option"
  ex_getPositionModeSdk :: "(js_error + bool option) option"
  ex_restPositionSide :: "js_error + bool \<times> bool option"
  ex_markPrice :: "js_error + jsnum"
  ex_fetchPositions :: "js_error + position list"
  ex_newOrder :: "nat \<Rightarrow> order_request \<Rightarrow> js_error + order_data"

text \<open>What a call does to the outside, in order: the queries of the position mode, the orders
  it submits and the pauses of its retry loop.\<close>

datatype mode_query = SdkPositionMode | SdkGetPositionMode | RestPositionSideDual

datatype event =
    ModeQuery mode_query
  | NewOrder order_request
  | Sleep nat


section \<open>\<open>getPositionMode\<close>, \<open>buy.ts\<close> lines 13-72\<close>

text \<open>\<open>dualSidePosition ?? false\<close>, then \<open>dualSidePosition ? "DUAL_SIDE" : "ONE_WAY"\<close>.\<close>

definition mode_of_flag :: "bool option \<Rightarrow> position_mode" where
  "mode_of_flag dualSidePosition =
     (if (case dualSidePosition of None \<Rightarrow> False | Some b \<Rightarrow> b) then DUAL_SIDE else ONE_WAY)"

text \<open>The first inner \<open>try\<close> (lines 22-39): the mode it returns, or \<open>None\<close> when neither
  method exists or the call threw and the \<open>catch\<close> swallowed it.\<close>

definition getPositionMode_sdk :: "exchange \<Rightarrow> position_mode option \<times> event list" where
  "getPositionMode_sdk ex =
     (case ex_positionMode ex of
        Some resp \<Rightarrow>
          (case resp of
             Inr flag \<Rightarrow> (Some (mode_of_flag flag), [ModeQuery SdkPositionMode])
           | Inl e \<Rightarrow> (None, [ModeQuery SdkPositionMode]))
      | None \<Rightarrow>
          (case ex_getPositionModeSdk ex of
             Some resp \<Rightarrow>
               (case resp of
                  Inr flag \<Rightarrow> (Some (mode_of_flag flag), [ModeQuery SdkGetPositionMode])
                | Inl e \<Rightarrow> (None, [ModeQuery SdkGetPositionMode]))
           | None \<Rightarrow> (None, [])))"

text \<open>The second inner \<open>try\<close> (lines 42-63): the signed REST call.\<close>

definition getPositionMode_rest :: "exchange \<Rightarrow> position_mode option \<times> event list" where
  "getPositionMode_rest ex =
     (case ex_restPositionSide ex of
        Inl e \<Rightarrow> (None, [ModeQuery RestPositionSideDual])
      | Inr (ok, flag) \<Rightarrow>
          if ok then (Some (mode_of_flag flag), [ModeQuery RestPositionSideDual])
          else (None, [ModeQuery RestPositionSideDual]))"

record mode_result =
  mr_mode :: position_mode
  mr_cache :: "position_mode option"
  mr_events :: "event list"

text \<open>The module variable \<open>positionModeCache\<close> is passed in and returned.\<close>

definition getPositionMode :: "position_mode option \<Rightarrow> exchange \<Rightarrow> mode_result" where
  "getPositionMode positionModeCache ex =
     (case positionModeCache of
        Some cached \<Rightarrow> \<lparr>mr_mode = cached, mr_cache = Some cached, mr_events = []\<rparr>
      | None \<Rightarrow>
          (case ex_getBinanceInstance ex of
             Some error \<Rightarrow> \<lparr>mr_mode = ONE_WAY, mr_cache = Some ONE_WAY, mr_events = []\<rparr>
           | None \<Rightarrow>
               (case ex_ensureTimeSync ex of
                  Some error \<Rightarrow> \<lparr>mr_mode = ONE_WAY, mr_cache = Some ONE_WAY, mr_events = []\<rparr>
                | None \<Rightarrow>
                    (case getPositionMode_sdk ex of
                       (Some m, evs) \<Rightarrow> \<lparr>mr_mode = m, mr_cache = Some m, mr_events = evs\<rparr>
                     | (None, evs) \<Rightarrow>
                         (case getPositionMode_rest ex of
                            (Some m, evs') \<Rightarrow>
                              \<lparr>mr_mode = m, mr_cache = Some m, mr_events = evs @ evs'\<rparr>
                          | (None, evs') \<Rightarrow>
                              \<lparr>mr_mode = ONE_WAY, mr_cache = Some ONE_WAY,
                               mr_events = evs @ evs'\<rparr>)))))"

text \<open>No path of the resolution obtained an answer from the exchange.\<close>

definition resolution_failed :: "exchange \<Rightarrow> bool" where
  "resolution_failed ex =
     (ex_getBinanceInstance ex \<noteq> None \<or> ex_ensureTimeSync ex \<noteq> None
      \<or> (fst (getPositionMode_sdk ex) = None \<and> fst (getPositionMode_rest ex) = None))"


section \<open>Results of the trading functions\<close>

text \<open>The texts of the \<open>error\<close> field, with the numbers and names they interpolate.\<close>

datatype error_text =
    InvalidSymbolFormat
  | AmountNotPositive
  | LeverageOutOfRange
  | PercentageOutOfRange
  | NoOpenPosition string
  | FetchPositionFailed string
  | CloseAmountNotPositive
  | CloseAmountTooSmall string real
  | ShortAmountInvalid
  | ShortAmountTooSmall real string real
  | CannotMeetMinNotional real string jsnum
  | SuggestedLeverageExceedsLimit jsnum string real jsnum
  | InvalidAdjustedAmount jsnum string real real
  | OrderValueBelowMinimum jsnum real jsnum
  | SellNoOpenPosition string "string list"
  | SellFetchPositionFailed string string
  | SellAmountNotPositive
  | SellAmountTooSmall real string real real
  | Caught string

record trade_result =
  tr_success :: bool
  tr_orderId :: "string option"
  tr_executedPrice :: "real option"
  tr_executedAmount :: "real option"
  tr_error :: "error_text option"

definition failure :: "error_text \<Rightarrow> trade_result" where
  "failure e = \<lparr>tr_success = False, tr_orderId = None, tr_executedPrice = None,
                 tr_executedAmount = None, tr_error = Some e\<rparr>"

text \<open>\<open>a ? parseFloat(a) : (b ? parseFloat(b) : 0)\<close>.\<close>

definition first_parsed :: "real option \<Rightarrow> real option \<Rightarrow> real" where
  "first_parsed a b = (case a of Some v \<Rightarrow> v | None \<Rightarrow> (case b of Some v \<Rightarrow> v | None \<Rightarrow> 0))"

definition filled :: "order_data \<Rightarrow> trade_result" where
  "filled orderResult =
     \<lparr>tr_success = True, tr_orderId = od_orderId orderResult,
      tr_executedPrice = Some (first_parsed (od_avgPrice orderResult) (od_price orderResult)),
      tr_executedAmount = Some (first_parsed (od_executedQty orderResult) (od_origQty orderResult)),
      tr_error = None\<rparr>"

text \<open>The outer \<open>catch\<close> of \<open>sell.ts\<close> and \<open>close_position.ts\<close>:
  \<open>error?.response?.data?.msg || error.message || fallback\<close>.\<close>

definition sell_caught :: "js_error \<Rightarrow> string \<Rightarrow> trade_result" where
  "sell_caught e fallback =
     failure (Caught (if response_or_message e = [] then fallback else response_or_message e))"

text \<open>The outer \<open>catch\<close> of \<open>buy.ts\<close>: \<open>error.message || fallback\<close>.\<close>

definition buy_caught :: "js_error \<Rightarrow> string \<Rightarrow> trade_result" where
  "buy_caught e fallback = failure (Caught (if err_message e = [] then fallback else err_message e))"

text \<open>A \<open>TypeError\<close> of the engine.  Its message is the engine's own wording and is given at
  each place that throws one; no statement below depends on the wording.\<close>

definition type_error :: "string \<Rightarrow> js_error" where
  "type_error message = \<lparr>err_message = message, err_response_msg = None\<rparr>"

text \<open>
  What a call of a trading function leaves behind: the result it returns, what it did to the
  outside, and the position-mode cache.  Every \<open>throw\<close> of the source inside the outer \<open>try\<close>
  is a branch that ends in the result which the outer \<open>catch\<close> returns.
\<close>

record outcome =
  out_result :: trade_result
  out_events :: "event list"
  out_cache :: "position_mode option"

definition returns :: "trade_result \<Rightarrow> position_mode option \<Rightarrow> outcome" where
  "returns r positionModeCache =
     \<lparr>out_result = r, out_events = [], out_cache = positionModeCache\<rparr>"

text \<open>\<open>x ? _ : _\<close> and \<open>!x\<close> on an optional number: \<open>undefined\<close> and \<open>0\<close> are falsy.\<close>

definition truthy :: "real option \<Rightarrow> bool" where
  "truthy x = (case x of None \<Rightarrow> False | Some v \<Rightarrow> v \<noteq> 0)"

definition submitted :: "event list \<Rightarrow> order_request list" where
  "submitted evs = concat (map (\<lambda>e. case e of NewOrder req \<Rightarrow> [req] | _ \<Rightarrow> []) evs)"

section \<open>The import of \<open>getPositionMode\<close>\<close>

text \<open>
  \<open>sell.ts\<close> (line 4) and \<open>close_position.ts\<close> (line 4) import \<open>getPositionMode\<close> from
  \<open>./buy\<close>.  \<open>buy.ts\<close> declares the function at line 13 without \<open>export\<close>, so in the sources
  as they are the imported name is bound to nothing, and the calls at \<open>sell.ts:206\<close>,
  \<open>sell.ts:292\<close> and \<open>close_position.ts:243\<close> throw a \<open>TypeError\<close> inside the \<open>try\<close> of their
  function.  The functions of these two files take the binding of the imported name as the
  parameter \<open>imported\<close>: \<open>None\<close> is the binding in the sources as they are
  (\<open>imported_getPositionMode\<close>), and \<open>Some getPositionMode\<close> is the binding once \<open>buy.ts\<close>
  exports the function.  Every statement about these functions says which binding it is
  about.
\<close>

type_synonym position_mode_resolver = "position_mode option \<Rightarrow> exchange \<Rightarrow> mode_result"

definition imported_getPositionMode :: "position_mode_resolver option" where
  "imported_getPositionMode = None"

text \<open>The call \<open>await getPositionMode()\<close> through the imported name.\<close>

definition call_imported ::
  "position_mode_resolver option \<Rightarrow> position_mode option \<Rightarrow> exchange \<Rightarrow> js_error + mode_result" where
  "call_imported imported positionModeCache ex =
     (case imported of
        None \<Rightarrow> Inl (type_error ''getPositionMode is not a function'')
      | Some resolve \<Rightarrow> Inr (resolve positionModeCache ex))"

section \<open>\<open>closePosition\<close> and \<open>shortSell\<close>, \<open>sell.ts\<close>\<close>


record short_sell_params =
  ssp_symbol :: string
  ssp_amount :: real
  ssp_price :: "real option"
  ssp_leverage :: "real option"

text \<open>The retry loop, the same text in \<open>closePosition\<close> (lines 227-243) and in \<open>shortSell\<close>
  (lines 312-328).  It ends with the order data, or throws the error of the third attempt
  (\<open>Inl\<close>); \<open>Inr None\<close> is the loop left with \<open>orderResult\<close> still undefined, which no
  run from the first attempt reaches.\<close>

function sell_order_loop ::
  "exchange \<Rightarrow> order_request \<Rightarrow> nat \<Rightarrow> (js_error + order_data option) \<times> event list" where
  "sell_order_loop ex req attempt =
     (if attempt \<le> 3
      then (case ex_newOrder ex attempt req of
              Inr orderResult \<Rightarrow> (Inr (Some orderResult), [NewOrder req])
            | Inl orderError \<Rightarrow>
                if attempt < 3
                then (case sell_order_loop ex req (attempt + 1) of
                        (r, evs) \<Rightarrow> (r, NewOrder req # Sleep (attempt * 2000) # evs))
                else (Inl orderError, [NewOrder req]))
      else (Inr None, []))"
  by pat_completeness auto
termination
  by (relation "measure (\<lambda>(ex, req, attempt). 4 - attempt)") auto

declare sell_order_loop.simps [simp del]

text \<open>What follows the loop, up to the \<open>return\<close> of the function or of its outer \<open>catch\<close>.\<close>

definition sell_after_loop ::
  "(js_error + order_data option) \<times> event list \<Rightarrow> event list \<Rightarrow> position_mode option
     \<Rightarrow> string \<Rightarrow> outcome" where
  "sell_after_loop looped earlier positionModeCache fallback =
     (case looped of
        (Inr (Some orderResult), evs) \<Rightarrow>
          \<lparr>out_result = filled orderResult, out_events = earlier @ evs,
           out_cache = positionModeCache\<rparr>
      | (Inr None, evs) \<Rightarrow>
          \<lparr>out_result =
             sell_caught
               (type_error ''Cannot read properties of undefined (reading orderId)'') fallback,
           out_events = earlier @ evs, out_cache = positionModeCache\<rparr>
      | (Inl error, evs) \<Rightarrow>
          \<lparr>out_result = sell_caught error fallback, out_events = earlier @ evs,
           out_cache = positionModeCache\<rparr>)"




text \<open>Lines 206-223: the request.\<close>

definition closePosition_request ::
  "position_mode \<Rightarrow> string \<Rightarrow> position_side \<Rightarrow> real \<Rightarrow> real option \<Rightarrow> order_request" where
  "closePosition_request positionMode symbol positionSide finalAmount price =
     \<lparr>or_symbol = replace_slash symbol,
      or_side = (if positionSide = LONG then SELL else BUY),
      or_type = (if truthy price then LIMIT else MARKET),
      or_params =
        \<lparr>op_quantity = Fin finalAmount,
         op_positionSide = (if positionMode = DUAL_SIDE then Some positionSide else None),
         op_reduceOnly = (if positionMode = DUAL_SIDE then None else Some True),
         op_price = (if truthy price then price else None),
         op_timeInForce = (if truthy price then Some ''GTC'' else None)\<rparr>\<rparr>"


text \<open>Lines 292-308 of \<open>shortSell\<close>: the request.\<close>

definition shortSell_request ::
  "position_mode \<Rightarrow> string \<Rightarrow> real \<Rightarrow> real option \<Rightarrow> order_request" where
  "shortSell_request positionMode symbol adjustedAmount price =
     \<lparr>or_symbol = replace_slash symbol,
      or_side = SELL,
      or_type = (if truthy price then LIMIT else MARKET),
      or_params =
        \<lparr>op_quantity = Fin adjustedAmount,
         op_positionSide = (if positionMode = DUAL_SIDE then Some SHORT else None),
         op_reduceOnly = None,
         op_price = (if truthy price then price else None),
         op_timeInForce = (if truthy price then Some ''GTC'' else None)\<rparr>\<rparr>"

text \<open>\<open>shortSell\<close>, lines 262-342.  \<open>setLeverage\<close> (lines 61-69) catches whatever its calls
  throw and returns nothing, so it has no branch here.\<close>

definition shortSell ::
  "precision_table \<Rightarrow> position_mode_resolver option \<Rightarrow> position_mode option \<Rightarrow> exchange
     \<Rightarrow> short_sell_params \<Rightarrow> outcome" where
  "shortSell tbl imported positionModeCache ex params =
     (let symbol = ssp_symbol params;
          amount = ssp_amount params;
          unknown = ''Unknown error during short sell''
      in if symbol = [] \<or> \<not> str_includes symbol ''/''
         then returns (failure InvalidSymbolFormat) positionModeCache
         else if amount \<le> 0
         then returns (failure ShortAmountInvalid) positionModeCache
         else
           (case ex_ensureTimeSync ex of
              Some error \<Rightarrow> returns (sell_caught error unknown) positionModeCache
            | None \<Rightarrow>
                (case ex_getBinanceInstance ex of
                   Some error \<Rightarrow> returns (sell_caught error unknown) positionModeCache
                 | None \<Rightarrow>
                     (let binanceSymbol = replace_slash symbol;
                          adjustedAmount = sell_adjustPrecision tbl amount binanceSymbol;
                          minAmount = minAmount_of tbl binanceSymbol
                      in if adjustedAmount \<le> 0 \<or> adjustedAmount < minAmount
                         then returns (failure (ShortAmountTooSmall amount symbol minAmount))
                                positionModeCache
                         else
                           (case call_imported imported positionModeCache ex of
                              Inl error \<Rightarrow> returns (sell_caught error unknown) positionModeCache
                            | Inr resolved \<Rightarrow>
                                (let req = shortSell_request (mr_mode resolved) symbol
                                             adjustedAmount (ssp_price params)
                                 in sell_after_loop (sell_order_loop ex req 1)
                                      (mr_events resolved) (mr_cache resolved) unknown))))))"


section \<open>\<open>buy\<close>, \<open>buy.ts\<close> lines 203-510\<close>

text \<open>The parameters \<open>symbol\<close>, \<open>amount\<close>, \<open>leverage\<close> and \<open>price\<close>; the numbers that a
  caller passes are finite.  \<open>autoSetStopLoss\<close> and the two percentages only reach the block
  that attaches stop loss and take profit.\<close>

record buy_params =
  bp_symbol :: string
  bp_amount :: real
  bp_leverage :: "real option"
  bp_price :: "real option"

text \<open>\<open>fallbackPrices\<close>, lines 246-253, and \<open>fallbackPrices[binanceSymbol] || 1\<close>.\<close>

definition buy_fallbackPrices :: "string \<Rightarrow> real option" where
  "buy_fallbackPrices = map_of
     [(''BTCUSDT'', 50000), (''ETHUSDT'', 3000), (''BNBUSDT'', 500),
      (''SOLUSDT'', 100), (''ADAUSDT'', 1 / 2), (''DOGEUSDT'', 1 / 10)]"

definition buy_fallbackPrice :: "string \<Rightarrow> real" where
  "buy_fallbackPrice binanceSymbol =
     (case buy_fallbackPrices binanceSymbol of
        Some p \<Rightarrow> if p = 0 then 1 else p
      | None \<Rightarrow> 1)"

text \<open>Lines 237-257: the limit price when one is given (a price of \<open>0\<close> is falsy), else the
  mark price as the exchange reports it, else the fallback when the call throws.\<close>

definition buy_currentPrice :: "exchange \<Rightarrow> string \<Rightarrow> real option \<Rightarrow> jsnum" where
  "buy_currentPrice ex binanceSymbol price =
     (let fetched = (case ex_markPrice ex of
                       Inr markPrice \<Rightarrow> markPrice
                     | Inl e \<Rightarrow> Fin (buy_fallbackPrice binanceSymbol))
      in case price of
           Some p \<Rightarrow> if p = 0 then fetched else Fin p
         | None \<Rightarrow> fetched)"

text \<open>
  How the part of \<open>buy\<close> that fixes the amount and the leverage ends: it goes on with an
  amount and a leverage, it returns a failure, or it throws.
\<close>

datatype prep =
    Ready jsnum jsnum
  | Rejected error_text
  | Thrown js_error

text \<open>Lines 264-288: the first step, the minimum notional.  Line 282 reads
  \<open>SYMBOL_PRECISION[binanceSymbol].minNotional\<close> without a default and throws for a symbol
  that is not in the table.\<close>

definition buy_minNotionalStep ::
  "precision_table \<Rightarrow> string \<Rightarrow> jsnum \<Rightarrow> jsnum \<Rightarrow> jsnum \<Rightarrow> prep" where
  "buy_minNotionalStep tbl symbol adjustedAmount effectiveLeverage currentPrice =
     (let binanceSymbol = replace_slash symbol
      in case buy_checkMinNotional tbl adjustedAmount binanceSymbol currentPrice of
           NotionalValid \<Rightarrow> Ready adjustedAmount effectiveLeverage
         | NotionalInvalid n m r \<Rightarrow>
             (let adjustment = buy_smartAdjustOrderForMinNotional_num tbl adjustedAmount symbol
                                 currentPrice effectiveLeverage;
                  finalNotional = js_mul (na_adjustedAmount adjustment) currentPrice
              in case tbl binanceSymbol of
                   None \<Rightarrow>
                     Thrown (type_error
                       ''Cannot read properties of undefined (reading minNotional)'')
                 | Some entry \<Rightarrow>
                     if js_lt finalNotional (Fin (minNotional entry))
                     then Rejected (CannotMeetMinNotional (minNotional entry) symbol
                                      finalNotional)
                     else Ready (na_adjustedAmount adjustment)
                            (na_adjustedLeverage adjustment)))"

text \<open>Lines 291-328: the second step, the small order.\<close>

definition buy_smallOrderStep ::
  "precision_table \<Rightarrow> string \<Rightarrow> jsnum \<Rightarrow> jsnum \<Rightarrow> jsnum \<Rightarrow> prep" where
  "buy_smallOrderStep tbl symbol adjustedAmount effectiveLeverage currentPrice =
     (let binanceSymbol = replace_slash symbol;
          minAmount = minAmount_of tbl binanceSymbol
      in if js_eq adjustedAmount (Fin 0) \<or> js_lt adjustedAmount (Fin minAmount)
         then
           (let currentPositionValue = js_mul adjustedAmount currentPrice;
                minPositionValue = js_mul (Fin minAmount) currentPrice;
                suggestedMultiplier = js_ceil (js_div minPositionValue currentPositionValue);
                suggestedLeverage = js_min (js_mul effectiveLeverage suggestedMultiplier) (Fin 30)
            in if js_le suggestedLeverage (Fin 30) \<and> js_le suggestedMultiplier (Fin 20)
               then
                 (case buy_checkMinNotional tbl (Fin minAmount) binanceSymbol currentPrice of
                    NotionalValid \<Rightarrow> Ready (Fin minAmount) suggestedLeverage
                  | NotionalInvalid n m r \<Rightarrow>
                      (let readjustment = buy_smartAdjustOrderForMinNotional_num tbl
                                            (Fin minAmount) symbol currentPrice suggestedLeverage
                       in Ready (na_adjustedAmount readjustment)
                            (na_adjustedLeverage readjustment)))
               else Rejected (SuggestedLeverageExceedsLimit adjustedAmount symbol minAmount
                                suggestedLeverage))
         else Ready adjustedAmount effectiveLeverage)"

text \<open>Lines 331-345: the last two checks.\<close>

definition buy_finalChecks ::
  "precision_table \<Rightarrow> string \<Rightarrow> real \<Rightarrow> jsnum \<Rightarrow> jsnum \<Rightarrow> jsnum \<Rightarrow> prep" where
  "buy_finalChecks tbl symbol amount adjustedAmount effectiveLeverage currentPrice =
     (let binanceSymbol = replace_slash symbol;
          minAmount = minAmount_of tbl binanceSymbol
      in if js_le adjustedAmount (Fin 0) \<or> js_lt adjustedAmount (Fin minAmount)
         then Rejected (InvalidAdjustedAmount adjustedAmount symbol minAmount amount)
         else
           (case buy_checkMinNotional tbl adjustedAmount binanceSymbol currentPrice of
              NotionalInvalid n m r \<Rightarrow> Rejected (OrderValueBelowMinimum n m r)
            | NotionalValid \<Rightarrow> Ready adjustedAmount effectiveLeverage))"

text \<open>Lines 259-345 as a whole.\<close>

definition buy_prepare ::
  "precision_table \<Rightarrow> string \<Rightarrow> real \<Rightarrow> real \<Rightarrow> jsnum \<Rightarrow> prep" where
  "buy_prepare tbl symbol amount leverage currentPrice =
     (let adjustedAmount = buy_adjustPrecision_num tbl (Fin amount) (replace_slash symbol)
      in case buy_minNotionalStep tbl symbol adjustedAmount (Fin leverage) currentPrice of
           Ready a1 l1 \<Rightarrow>
             (case buy_smallOrderStep tbl symbol a1 l1 currentPrice of
                Ready a2 l2 \<Rightarrow> buy_finalChecks tbl symbol amount a2 l2 currentPrice
              | stopped \<Rightarrow> stopped)
         | stopped \<Rightarrow> stopped)"

text \<open>Lines 363-385: the request.\<close>

definition buy_request ::
  "position_mode \<Rightarrow> string \<Rightarrow> jsnum \<Rightarrow> real option \<Rightarrow> order_request" where
  "buy_request positionMode symbol adjustedAmount price =
     \<lparr>or_symbol = replace_slash symbol,
      or_side = BUY,
      or_type = (if truthy price then LIMIT else MARKET),
      or_params =
        \<lparr>op_quantity = adjustedAmount,
         op_positionSide = (if positionMode = DUAL_SIDE then Some LONG else None),
         op_reduceOnly = None,
         op_price = (if truthy price then price else None),
         op_timeInForce = (if truthy price then Some ''GTC'' else None)\<rparr>\<rparr>"

text \<open>Lines 393-430: the retry loop.  A message with \<open>Precision\<close> on the first attempt
  raises the quantity by one minimal amount and quantizes it again.\<close>

function buy_order_loop ::
  "precision_table \<Rightarrow> exchange \<Rightarrow> order_request \<Rightarrow> jsnum \<Rightarrow> nat
     \<Rightarrow> (js_error + order_data option) \<times> event list" where
  "buy_order_loop tbl ex req adjustedAmount attempt =
     (if attempt \<le> 3
      then (case ex_newOrder ex attempt req of
              Inr orderResult \<Rightarrow> (Inr (Some orderResult), [NewOrder req])
            | Inl orderError \<Rightarrow>
                (let errorMsg = response_or_message orderError;
                     readjust = (str_includes errorMsg ''Precision'' \<and> attempt = 1);
                     adjustedAmount' =
                       (if readjust
                        then buy_adjustPrecision_num tbl
                               (js_add adjustedAmount (Fin (minAmount_of tbl (or_symbol req))))
                               (or_symbol req)
                        else adjustedAmount);
                     req' =
                       (if readjust
                        then req\<lparr>or_params := (or_params req)\<lparr>op_quantity := adjustedAmount'\<rparr>\<rparr>
                        else req)
                 in if attempt < 3
                    then (case buy_order_loop tbl ex req' adjustedAmount' (attempt + 1) of
                            (r, evs) \<Rightarrow> (r, NewOrder req # Sleep (attempt * 3000) # evs))
                    else (Inl orderError, [NewOrder req])))
      else (Inr None, []))"
  by pat_completeness auto
termination
  by (relation "measure (\<lambda>(tbl, ex, req, adjustedAmount, attempt). 4 - attempt)") auto

declare buy_order_loop.simps [simp del]

text \<open>Lines 432-508: what follows the loop, up to the \<open>return\<close> of \<open>buy\<close> or of its
  outer \<open>catch\<close>.  Line 433 throws \<open>lastError || new Error(...)\<close> when the loop was left
  without a result.\<close>

definition buy_after_loop ::
  "(js_error + order_data option) \<times> event list \<Rightarrow> event list \<Rightarrow> position_mode option
     \<Rightarrow> outcome" where
  "buy_after_loop looped earlier positionModeCache =
     (case looped of
        (Inr (Some orderResult), evs) \<Rightarrow>
          \<lparr>out_result = filled orderResult, out_events = earlier @ evs,
           out_cache = positionModeCache\<rparr>
      | (Inr None, evs) \<Rightarrow>
          \<lparr>out_result = buy_caught
             \<lparr>err_message = ''Failed to create order after 3 attempts'',
              err_response_msg = None\<rparr> ''Unknown error occurred during buy'',
           out_events = earlier @ evs, out_cache = positionModeCache\<rparr>
      | (Inl error, evs) \<Rightarrow>
          \<lparr>out_result = buy_caught error ''Unknown error occurred during buy'',
           out_events = earlier @ evs, out_cache = positionModeCache\<rparr>)"

text \<open>
  \<open>buy\<close>.  The call \<open>changeInitialLeverage\<close> (lines 350-360) sits in a \<open>try\<close> of its own
  whose \<open>catch\<close> only logs.  The block that attaches stop loss and take profit
  (lines 438-485) runs after the order is filled, catches what its calls throw, and changes
  neither the order nor the returned result.  Neither has a branch here, and the pauses of
  that block are not among the events.  \<open>getPositionMode\<close> is the function of this file
  (line 363).
\<close>

definition buy ::
  "precision_table \<Rightarrow> position_mode option \<Rightarrow> exchange \<Rightarrow> buy_params \<Rightarrow> outcome" where
  "buy tbl positionModeCache ex params =
     (let symbol = bp_symbol params;
          amount = bp_amount params;
          leverage = (case bp_leverage params of None \<Rightarrow> 10 | Some l \<Rightarrow> l);
          unknown = ''Unknown error occurred during buy''
      in if symbol = [] \<or> \<not> str_includes symbol ''/''
         then returns (failure InvalidSymbolFormat) positionModeCache
         else if amount \<le> 0
         then returns (failure AmountNotPositive) positionModeCache
         else if leverage < 1 \<or> leverage > 30
         then returns (failure LeverageOutOfRange) positionModeCache
         else
           (case ex_ensureTimeSync ex of
              Some error \<Rightarrow> returns (buy_caught error unknown) positionModeCache
            | None \<Rightarrow>
                (case ex_getBinanceInstance ex of
                   Some error \<Rightarrow> returns (buy_caught error unknown) positionModeCache
                 | None \<Rightarrow>
                     (let currentPrice = buy_currentPrice ex (replace_slash symbol) (bp_price params)
                      in case buy_prepare tbl symbol amount leverage currentPrice of
                           Rejected e \<Rightarrow> returns (failure e) positionModeCache
                         | Thrown error \<Rightarrow> returns (buy_caught error unknown) positionModeCache
                         | Ready adjustedAmount effectiveLeverage \<Rightarrow>
                             (let resolved = getPositionMode positionModeCache ex;
                                  req = buy_request (mr_mode resolved) symbol adjustedAmount
                                          (bp_price params)
                              in buy_after_loop (buy_order_loop tbl ex req adjustedAmount 1)
                                   (mr_events resolved) (mr_cache resolved))))))"

section \<open>\<open>sell\<close>, \<open>close_position.ts\<close> lines 119-360\<close>

text \<open>
  \<open>close_position.ts\<close> has its own copies of \<open>adjustPrecision\<close> (lines 36-50) and of
  \<open>smartAdjustAmount\<close> (\<open>smartAdjustSellAmount\<close>, lines 55-112) with the same table; they
  compute what \<open>sell_adjustPrecision\<close> and \<open>sell_smartAdjustAmount\<close> compute and are not
  repeated.
\<close>

record sell_params =
  sp_symbol :: string
  sp_percentage :: "real option"
  sp_amount :: "real option"
  sp_price :: "real option"

text \<open>Lines 148-214.\<close>

definition cpos_sell_fromPosition ::
  "precision_table \<Rightarrow> exchange \<Rightarrow> string \<Rightarrow> real
     \<Rightarrow> trade_result + real \<times> position_side \<times> real" where
  "cpos_sell_fromPosition tbl ex symbol percentage =
     (let binanceSymbol = replace_slash symbol
      in case ex_fetchPositions ex of
           Inl positionError \<Rightarrow>
             Inl (failure (SellFetchPositionFailed symbol (err_message positionError)))
         | Inr positions \<Rightarrow>
             (let activePositions = filter (\<lambda>p. pos_contracts p \<noteq> 0) positions
              in case find (\<lambda>p. pos_symbol p = binanceSymbol \<and> pos_contracts p \<noteq> 0) positions of
                   None \<Rightarrow>
                     Inl (failure (SellNoOpenPosition symbol (map pos_symbol activePositions)))
                 | Some position \<Rightarrow>
                     (let positionSide = (if pos_side position = ''long'' then LONG else SHORT);
                          positionSize = \<bar>pos_contracts position\<bar>;
                          sellAmount = positionSize * (percentage / 100);
                          adjustment = sell_smartAdjustAmount tbl sellAmount symbol positionSize
                      in Inr (sa_adjustedAmount adjustment, positionSide, positionSize))))"

definition cpos_sell_sellAmount ::
  "precision_table \<Rightarrow> exchange \<Rightarrow> string \<Rightarrow> real \<Rightarrow> real option
     \<Rightarrow> trade_result + real \<times> position_side \<times> real" where
  "cpos_sell_sellAmount tbl ex symbol percentage amount =
     (case amount of
        None \<Rightarrow> cpos_sell_fromPosition tbl ex symbol percentage
      | Some sellAmount \<Rightarrow>
          if sellAmount = 0 then cpos_sell_fromPosition tbl ex symbol percentage
          else Inr (sellAmount, LONG, 0))"

text \<open>Lines 216-238.\<close>

definition cpos_sell_finalAmount ::
  "precision_table \<Rightarrow> string \<Rightarrow> real \<Rightarrow> real \<Rightarrow> trade_result + real" where
  "cpos_sell_finalAmount tbl symbol sellAmount positionSize =
     (let binanceSymbol = replace_slash symbol
      in if sellAmount \<le> 0 then Inl (failure SellAmountNotPositive)
         else
           (let adjustedAmount = sell_adjustPrecision tbl sellAmount binanceSymbol;
                minAmount = minAmount_of tbl binanceSymbol
            in if adjustedAmount \<le> 0 \<or> adjustedAmount < minAmount
               then Inl (failure (SellAmountTooSmall sellAmount symbol minAmount positionSize))
               else Inr (if positionSize > 0 \<and> adjustedAmount > positionSize
                         then sell_adjustPrecision tbl positionSize binanceSymbol
                         else adjustedAmount)))"

text \<open>Lines 297-318, inside the \<open>catch\<close> of an attempt: the position mode is asked from the
  client directly and the parameters are set from the answer.  What this block throws (the
  client, the call, or the \<open>TypeError\<close> of a client without the method \<open>positionMode\<close>)
  leaves the loop and reaches the outer \<open>catch\<close>.  The variable \<open>positionModeCache\<close> of
  \<open>buy.ts\<close> is not in scope here and is not written.\<close>

definition cpos_sell_rebuild ::
  "exchange \<Rightarrow> position_side \<Rightarrow> order_request \<Rightarrow> (js_error + order_request) \<times> event list" where
  "cpos_sell_rebuild ex positionSide req =
     (case ex_getBinanceInstance ex of
        Some error \<Rightarrow> (Inl error, [])
      | None \<Rightarrow>
          (case ex_positionMode ex of
             None \<Rightarrow> (Inl (type_error ''client.positionMode is not a function''), [])
           | Some resp \<Rightarrow>
               (case resp of
                  Inl error \<Rightarrow> (Inl error, [ModeQuery SdkPositionMode])
                | Inr flag \<Rightarrow>
                    (let currentPositionMode = mode_of_flag flag;
                         orderParams =
                           (if currentPositionMode = DUAL_SIDE
                            then (or_params req)\<lparr>op_positionSide := Some positionSide,
                                                   op_reduceOnly := None\<rparr>
                            else (or_params req)\<lparr>op_reduceOnly := Some True,
                                                   op_positionSide := None\<rparr>)
                     in (Inr (req\<lparr>or_params := orderParams\<rparr>), [ModeQuery SdkPositionMode])))))"

text \<open>Lines 275-328: the retry loop.\<close>

function cpos_sell_loop ::
  "exchange \<Rightarrow> position_side \<Rightarrow> order_request \<Rightarrow> nat
     \<Rightarrow> (js_error + order_data option) \<times> event list" where
  "cpos_sell_loop ex positionSide req attempt =
     (if attempt \<le> 3
      then (case ex_newOrder ex attempt req of
              Inr orderResult \<Rightarrow> (Inr (Some orderResult), [NewOrder req])
            | Inl orderError \<Rightarrow>
                (let errorMsg = response_or_message orderError;
                     rebuilt =
                       (if str_includes errorMsg ''position side does not match'' \<and> attempt = 1
                        then cpos_sell_rebuild ex positionSide req
                        else (Inr req, []))
                 in case rebuilt of
                      (Inl thrown, evs1) \<Rightarrow> (Inl thrown, NewOrder req # evs1)
                    | (Inr req', evs1) \<Rightarrow>
                        if attempt < 3
                        then (case cpos_sell_loop ex positionSide req' (attempt + 1) of
                                (r, evs) \<Rightarrow>
                                  (r, NewOrder req # evs1 @ Sleep (attempt * 2000) # evs))
                        else (Inl orderError, NewOrder req # evs1)))
      else (Inr None, []))"
  by pat_completeness auto
termination
  by (relation "measure (\<lambda>(ex, positionSide, req, attempt). 4 - attempt)") auto

declare cpos_sell_loop.simps [simp del]

text \<open>Lines 330-359: what follows the loop.\<close>

definition cpos_sell_after_loop ::
  "(js_error + order_data option) \<times> event list \<Rightarrow> event list \<Rightarrow> position_mode option
     \<Rightarrow> outcome" where
  "cpos_sell_after_loop looped earlier positionModeCache =
     (case looped of
        (Inr (Some orderResult), evs) \<Rightarrow>
          \<lparr>out_result = filled orderResult, out_events = earlier @ evs,
           out_cache = positionModeCache\<rparr>
      | (Inr None, evs) \<Rightarrow>
          \<lparr>out_result = sell_caught
             \<lparr>err_message = ''Failed to create sell order after 3 attempts'',
              err_response_msg = None\<rparr> ''Unknown error occurred during sell'',
           out_events = earlier @ evs, out_cache = positionModeCache\<rparr>
      | (Inl error, evs) \<Rightarrow>
          \<lparr>out_result = sell_caught error ''Unknown error occurred during sell'',
           out_events = earlier @ evs, out_cache = positionModeCache\<rparr>)"

text \<open>\<open>sell\<close>, lines 119-360.  Lines 243-267 build the request as \<open>closePosition\<close> does.\<close>

definition cpos_sell ::
  "precision_table \<Rightarrow> position_mode_resolver option \<Rightarrow> position_mode option \<Rightarrow> exchange
     \<Rightarrow> sell_params \<Rightarrow> outcome" where
  "cpos_sell tbl imported positionModeCache ex params =
     (let symbol = sp_symbol params;
          percentage = (case sp_percentage params of None \<Rightarrow> 100 | Some p \<Rightarrow> p);
          unknown = ''Unknown error occurred during sell''
      in if symbol = [] \<or> \<not> str_includes symbol ''/''
         then returns (failure InvalidSymbolFormat) positionModeCache
         else if percentage \<le> 0 \<or> percentage > 100
         then returns (failure PercentageOutOfRange) positionModeCache
         else
           (case ex_ensureTimeSync ex of
              Some error \<Rightarrow> returns (sell_caught error unknown) positionModeCache
            | None \<Rightarrow>
                (case ex_getBinanceInstance ex of
                   Some error \<Rightarrow> returns (sell_caught error unknown) positionModeCache
                 | None \<Rightarrow>
                     (case cpos_sell_sellAmount tbl ex symbol percentage (sp_amount params) of
                        Inl result \<Rightarrow> returns result positionModeCache
                      | Inr (sellAmount, positionSide, positionSize) \<Rightarrow>
                          (case cpos_sell_finalAmount tbl symbol sellAmount positionSize of
                             Inl result \<Rightarrow> returns result positionModeCache
                           | Inr finalSellAmount \<Rightarrow>
                               (case call_imported imported positionModeCache ex of
                                  Inl error \<Rightarrow>
                                    returns (sell_caught error unknown) positionModeCache
                                | Inr resolved \<Rightarrow>
                                    (let req = closePosition_request (mr_mode resolved) symbol
                                                 positionSide finalSellAmount (sp_price params)
                                     in cpos_sell_after_loop
                                          (cpos_sell_loop ex positionSide req 1)
                                          (mr_events resolved) (mr_cache resolved))))))))"


section \<open>The decisions of \<open>run\<close> and its margin ledger (the orchestrator, lines 110-429)\<close>

datatype opeartion = Buy | Sell | Hold | Close

datatype signal = Buy_to_enter | Sell_to_enter | Hold_signal | Close_position

text \<open>
  The object that the language model returns, validated against the schema of lines 110-121;
  only the fields that the buy branch reads.  The schema has no field \<open>pricing\<close>, and the
  validated object has the fields of the schema only.
\<close>

record ai_decision =
  ai_signal :: signal
  ai_coin :: string
  ai_quantity :: real
  ai_leverage :: real

text \<open>\<open>object.buy\<close>: \<open>None\<close> is \<open>null\<close>.\<close>

record buy_decision =
  bd_amount :: "real option"
  bd_pricing :: "real option"
  bd_leverage :: "real option"

record decision =
  d_opeartion :: opeartion
  d_symbol :: string
  d_buy :: "buy_decision option"

text \<open>
  Lines 185-290: the mapping to the legacy format.  An object of the schema has neither
  \<open>opeartion\<close> nor \<open>symbol\<close>, so line 191 never returns it as it is.  Line 227 writes
  \<open>pricing: d.pricing ?? null\<close>, which is \<open>null\<close> for every object of the schema.  The enum
  \<open>Opeartion\<close> comes from the database client, which is not among the sources; whether it
  has the member \<open>Close\<close> only decides between the branches \<open>Close\<close> and \<open>Hold\<close>, neither of which
  touches the ledger.
\<close>

definition run_mapDecision :: "ai_decision \<Rightarrow> decision" where
  "run_mapDecision d =
     \<lparr>d_opeartion = (case ai_signal d of
                        Buy_to_enter \<Rightarrow> Buy
                      | Sell_to_enter \<Rightarrow> Sell
                      | Hold_signal \<Rightarrow> Hold
                      | Close_position \<Rightarrow> Close),
      d_symbol = ai_coin d,
      d_buy = (if ai_signal d = Buy_to_enter
               then Some \<lparr>bd_amount = Some (ai_quantity d), bd_pricing = None,
                           bd_leverage = Some (ai_leverage d)\<rparr>
               else None)\<rparr>"

text \<open>\<open>checkBuyRisk\<close> and \<open>logTrade\<close> come from \<open>risk-control\<close>, which is not among the
  sources.  The verdict \<open>allowed\<close> of \<open>checkBuyRisk\<close> is a parameter: amount, price, leverage,
  current balance.  Both calls are taken to return.\<close>

type_synonym risk_check = "real \<Rightarrow> real option \<Rightarrow> real \<Rightarrow> real \<Rightarrow> bool"

text \<open>What one decision does to the ledger.  \<open>LeftModel\<close>: \<open>buy\<close> has returned success and
  \<open>requiredMargin\<close> is an infinity or \<open>NaN\<close>, which the source would subtract; no run reaches
  it (lemma \<open>run_decisions_total\<close>), since \<open>requiredMargin\<close> is finite unless the leverage is
  \<open>0\<close>, and \<open>buy\<close> rejects a leverage below \<open>1\<close>.\<close>

datatype ledger_step =
    NotABuy
  | MissingFields
  | RiskBlocked
  | MarginBlocked
  | BuyFailed
  | Committed real
  | LeftModel

text \<open>\<open>(object.buy.amount * object.buy.pricing) / object.buy.leverage\<close>, line 353; a
  \<open>pricing\<close> of \<open>null\<close> counts as \<open>0\<close> in the product.\<close>

definition run_requiredMargin :: "real \<Rightarrow> real option \<Rightarrow> real \<Rightarrow> jsnum" where
  "run_requiredMargin amount pricing leverage =
     js_div (js_mul (Fin amount) (Fin (case pricing of None \<Rightarrow> 0 | Some p \<Rightarrow> p))) (Fin leverage)"

text \<open>Lines 340-429, the branch \<open>Opeartion.Buy\<close>.  \<open>buy\<close> is called without a price.\<close>

definition run_buy_step ::
  "precision_table \<Rightarrow> risk_check \<Rightarrow> real \<Rightarrow> decision \<Rightarrow> exchange \<Rightarrow> position_mode option
     \<Rightarrow> ledger_step" where
  "run_buy_step tbl checkBuyRisk remainingAvailableCash object ex positionModeCache =
     (case d_buy object of
        None \<Rightarrow> MissingFields
      | Some b \<Rightarrow>
          (case bd_amount b of
             None \<Rightarrow> MissingFields
           | Some amount \<Rightarrow>
               (case bd_leverage b of
                  None \<Rightarrow> MissingFields
                | Some leverage \<Rightarrow>
                    (let requiredMargin = run_requiredMargin amount (bd_pricing b) leverage
                     in if \<not> checkBuyRisk amount (bd_pricing b) leverage remainingAvailableCash
                        then RiskBlocked
                        else if js_lt (Fin remainingAvailableCash) requiredMargin
                        then MarginBlocked
                        else
                          (let buyResult =
                                 out_result
                                   (buy tbl positionModeCache ex
                                      \<lparr>bp_symbol = d_symbol object @ ''/USDT'', bp_amount = amount,
                                       bp_leverage = Some leverage, bp_price = None\<rparr>)
                           in if tr_success buyResult
                              then (if js_finite requiredMargin
                                    then Committed (js_value requiredMargin)
                                    else LeftModel)
                              else BuyFailed)))))"

text \<open>
  The loop over the decisions (lines 331-577), with \<open>remainingAvailableCash\<close> passed along.
  Each decision comes with the exchange and the position-mode cache that its call of \<open>buy\<close>
  meets.  The branches \<open>Sell\<close>, \<open>Hold\<close> and \<open>Close\<close> neither read nor write
  \<open>remainingAvailableCash\<close>.  The result lists, for each decision in order, what it did and
  the value of \<open>remainingAvailableCash\<close> after it; \<open>None\<close> is a run that reaches
  \<open>LeftModel\<close>.
\<close>

fun run_decisions ::
  "precision_table \<Rightarrow> risk_check \<Rightarrow> real
     \<Rightarrow> (decision \<times> exchange \<times> position_mode option) list
     \<Rightarrow> (ledger_step \<times> real) list option" where
  "run_decisions tbl checkBuyRisk remainingAvailableCash [] = Some []"
| "run_decisions tbl checkBuyRisk remainingAvailableCash ((object, ex, positionModeCache) # rest) =
     (let step = (if d_opeartion object = Buy
                  then run_buy_step tbl checkBuyRisk remainingAvailableCash object ex
                         positionModeCache
                  else NotABuy)
      in case step of
           LeftModel \<Rightarrow> None
         | Committed requiredMargin \<Rightarrow>
             map_option (Cons (step, remainingAvailableCash - requiredMargin))
               (run_decisions tbl checkBuyRisk (remainingAvailableCash - requiredMargin) rest)
         | blocked \<Rightarrow>
             map_option (Cons (step, remainingAvailableCash))
               (run_decisions tbl checkBuyRisk remainingAvailableCash rest))"

text \<open>
  The ledger of one call of \<open>run\<close>: line 145 wraps the one object of the language model into
  the list of decisions, line 324 starts the ledger at the available cash of the account, and
  the loop runs over that list.
\<close>

definition run_ledger ::
  "precision_table \<Rightarrow> risk_check \<Rightarrow> real \<Rightarrow> ai_decision \<Rightarrow> exchange \<Rightarrow> position_mode option
     \<Rightarrow> (ledger_step \<times> real) list option" where
  "run_ledger tbl checkBuyRisk availableCash singleDecision ex positionModeCache =
     run_decisions tbl checkBuyRisk availableCash
       [(run_mapDecision singleDecision, ex, positionModeCache)]"

text \<open>The margins committed during a run.\<close>

fun committed :: "(ledger_step \<times> real) list \<Rightarrow> real list" where
  "committed [] = []"
| "committed ((Committed requiredMargin, cash) # rest) = requiredMargin # committed rest"
| "committed ((step, cash) # rest) = committed rest"

section \<open>Scenarios\<close>

text \<open>An exchange in one-way mode on which every call succeeds: BTC is marked at 50000 and
  every order is filled at once.\<close>

definition filling_exchange :: exchange where
  "filling_exchange =
     \<lparr>ex_ensureTimeSync = None, ex_getBinanceInstance = None,
      ex_positionMode = Some (Inr (Some False)), ex_getPositionModeSdk = None,
      ex_restPositionSide = Inr (True, Some False),
      ex_markPrice = Inr (Fin 50000),
      ex_fetchPositions = Inr [],
      ex_newOrder = (\<lambda>attempt req.
         Inr \<lparr>od_orderId = Some ''1'', od_avgPrice = Some 50000, od_price = None,
              od_executedQty = Some (js_value (op_quantity (or_params req))),
              od_origQty = None\<rparr>)\<rparr>"

text \<open>The same exchange when it reports a mark price of \<open>0\<close>.\<close>

definition zero_price_exchange :: exchange where
  "zero_price_exchange = filling_exchange \<lparr>ex_markPrice := Inr (Fin 0)\<rparr>"

text \<open>The same exchange when its answer to \<open>markPrice\<close> carries no number:
  \<open>parseFloat\<close> gives \<open>NaN\<close>.\<close>

definition nan_price_exchange :: exchange where
  "nan_price_exchange = filling_exchange \<lparr>ex_markPrice := Inr NaN\<rparr>"

text \<open>Two objects of the schema: buy 0.01 BTC with leverage 5, and hold.\<close>

definition ai_buy_btc :: ai_decision where
  "ai_buy_btc =
     \<lparr>ai_signal = Buy_to_enter, ai_coin = ''BTC'', ai_quantity = 1 / 100, ai_leverage = 5\<rparr>"

definition ai_hold_btc :: ai_decision where
  "ai_hold_btc =
     \<lparr>ai_signal = Hold_signal, ai_coin = ''BTC'', ai_quantity = 0, ai_leverage = 1\<rparr>"

text \<open>The risk check that allows everything.\<close>

definition allow_all :: risk_check where
  "allow_all amount pricing leverage currentBalance = True"

text \<open>The same exchange with a long position of 0.001 BTC, one minimal unit.\<close>

definition holding_exchange :: exchange where
  "holding_exchange = filling_exchange
     \<lparr>ex_fetchPositions :=
        Inr [\<lparr>pos_symbol = ''BTCUSDT'', pos_side = ''long'', pos_contracts = 1 / 1000\<rparr>]\<rparr>"

text \<open>The same exchange with a long position of 0.0005 BTC, half a minimal unit.\<close>

definition dust_exchange :: exchange where
  "dust_exchange = filling_exchange
     \<lparr>ex_fetchPositions :=
        Inr [\<lparr>pos_symbol = ''BTCUSDT'', pos_side = ''long'', pos_contracts = 1 / 2000\<rparr>]\<rparr>"

text \<open>An account in dual-side mode that holds a short position of 0.002 BTC.\<close>

definition short_holding_exchange :: exchange where
  "short_holding_exchange = filling_exchange
     \<lparr>ex_positionMode := Some (Inr (Some True)),
      ex_fetchPositions :=
        Inr [\<lparr>pos_symbol = ''BTCUSDT'', pos_side = ''short'', pos_contracts = 2 / 1000\<rparr>]\<rparr>"

text \<open>An exchange whose client exists but whose every network call times out.\<close>

definition timeout_error :: js_error where
  "timeout_error = \<lparr>err_message = ''timeout of 30000ms exceeded'', err_response_msg = None\<rparr>"

definition offline_exchange :: exchange where
  "offline_exchange =
     \<lparr>ex_ensureTimeSync = None, ex_getBinanceInstance = None,
      ex_positionMode = Some (Inl timeout_error), ex_getPositionModeSdk = None,
      ex_restPositionSide = Inl timeout_error,
      ex_markPrice = Inl timeout_error,
      ex_fetchPositions = Inl timeout_error,
      ex_newOrder = (\<lambda>attempt req. Inl timeout_error)\<rparr>"

text \<open>The exchange that fills the order on the given attempt and times out before.\<close>

definition late_filling_exchange :: "nat \<Rightarrow> exchange" where
  "late_filling_exchange n = holding_exchange
     \<lparr>ex_newOrder := (\<lambda>attempt req.
         if attempt < n then Inl timeout_error
         else Inr \<lparr>od_orderId = Some ''1'', od_avgPrice = Some 50000, od_price = None,
                   od_executedQty = Some (js_value (op_quantity (or_params req))),
                   od_origQty = None\<rparr>)\<rparr>"

text \<open>The rejection of an order whose parameters do not fit the account's position mode.\<close>

definition mismatch_error :: js_error where
  "mismatch_error =
     \<lparr>err_message = ''Request failed with status code 400'',
      err_response_msg = Some ''Order position side does not match user setting.''\<rparr>"

text \<open>An account in dual-side mode holding 0.001 BTC long: the first order is rejected for
  the mismatch, every later order is filled.\<close>

definition mismatch_exchange :: exchange where
  "mismatch_exchange = holding_exchange
     \<lparr>ex_positionMode := Some (Inr (Some True)),
      ex_newOrder := (\<lambda>attempt req.
         if attempt = 1 then Inl mismatch_error
         else Inr \<lparr>od_orderId = Some ''2'', od_avgPrice = Some 50000, od_price = None,
                   od_executedQty = Some (js_value (op_quantity (or_params req))),
                   od_origQty = None\<rparr>)\<rparr>"

text \<open>The same account when the first order times out and the mismatch is reported from the
  second attempt on.\<close>

definition late_mismatch_exchange :: exchange where
  "late_mismatch_exchange = holding_exchange
     \<lparr>ex_positionMode := Some (Inr (Some True)),
      ex_newOrder := (\<lambda>attempt req. if attempt = 1 then Inl timeout_error else Inl mismatch_error)\<rparr>"

text \<open>The same account when every order is rejected for the mismatch.\<close>

definition rejecting_exchange :: exchange where
  "rejecting_exchange = holding_exchange
     \<lparr>ex_positionMode := Some (Inr (Some True)),
      ex_newOrder := (\<lambda>attempt req. Inl mismatch_error)\<rparr>"

text \<open>The same account when the query of the position mode times out, and when the client
  has no method \<open>positionMode\<close>.\<close>

definition unanswering_exchange :: exchange where
  "unanswering_exchange = rejecting_exchange \<lparr>ex_positionMode := Some (Inl timeout_error)\<rparr>"

definition methodless_exchange :: exchange where
  "methodless_exchange = rejecting_exchange \<lparr>ex_positionMode := None\<rparr>"

section \<open>Reading the events of a call\<close>

text \<open>The events of the retry loop: what is left when the queries of the position mode are
  taken out.  And the queries of the position mode among the events.\<close>

definition order_events :: "event list \<Rightarrow> event list" where
  "order_events evs = filter (\<lambda>e. case e of ModeQuery q \<Rightarrow> False | _ \<Rightarrow> True) evs"

definition mode_queries :: "event list \<Rightarrow> event list" where
  "mode_queries evs = filter (\<lambda>e. case e of ModeQuery q \<Rightarrow> True | _ \<Rightarrow> False) evs"

text \<open>
  The retry policy in the words of the specification: up to three attempts, each failed
  attempt but the last followed by a pause of \<open>attempt \<times> b\<close>, the loop ending with the first
  order that the exchange accepts or with the error of the third attempt.  \<open>r1\<close> is the request
  of the first attempt and \<open>r2\<close> the request of the later ones.
\<close>

definition retry_policy ::
  "nat \<Rightarrow> exchange \<Rightarrow> order_request \<Rightarrow> order_request \<Rightarrow> (js_error + order_data) \<times> event list" where
  "retry_policy b ex r1 r2 =
     (case ex_newOrder ex 1 r1 of
        Inr d \<Rightarrow> (Inr d, [NewOrder r1])
      | Inl e1 \<Rightarrow>
          (case ex_newOrder ex 2 r2 of
             Inr d \<Rightarrow> (Inr d, [NewOrder r1, Sleep (1 * b), NewOrder r2])
           | Inl e2 \<Rightarrow>
               (case ex_newOrder ex 3 r2 of
                  Inr d \<Rightarrow>
                    (Inr d, [NewOrder r1, Sleep (1 * b), NewOrder r2, Sleep (2 * b), NewOrder r2])
                | Inl e3 \<Rightarrow>
                    (Inl e3,
                     [NewOrder r1, Sleep (1 * b), NewOrder r2, Sleep (2 * b), NewOrder r2]))))"

text \<open>The amount and the leverage on which \<open>buy\<close> settles for given parameters
  (lines 259-345 at the current price), and the request it builds from them.\<close>

definition buy_prepared :: "precision_table \<Rightarrow> exchange \<Rightarrow> buy_params \<Rightarrow> prep" where
  "buy_prepared tbl ex p =
     buy_prepare tbl (bp_symbol p) (bp_amount p)
       (case bp_leverage p of None \<Rightarrow> 10 | Some l \<Rightarrow> l)
       (buy_currentPrice ex (replace_slash (bp_symbol p)) (bp_price p))"

definition buy_first_request ::
  "position_mode option \<Rightarrow> exchange \<Rightarrow> buy_params \<Rightarrow> jsnum \<Rightarrow> order_request" where
  "buy_first_request cache ex p a =
     buy_request (mr_mode (getPositionMode cache ex)) (bp_symbol p) a (bp_price p)"

text \<open>The request of \<open>buy\<close> after the re-adjustment for a \<open>Precision\<close> error, and the request
  of its attempts after the first.\<close>

definition buy_readjusted :: "precision_table \<Rightarrow> order_request \<Rightarrow> jsnum \<Rightarrow> order_request" where
  "buy_readjusted tbl req a =
     req\<lparr>or_params := (or_params req)
        \<lparr>op_quantity :=
           buy_adjustPrecision_num tbl (js_add a (Fin (minAmount_of tbl (or_symbol req))))
             (or_symbol req)\<rparr>\<rparr>"

definition buy_later_request ::
  "precision_table \<Rightarrow> exchange \<Rightarrow> order_request \<Rightarrow> jsnum \<Rightarrow> order_request" where
  "buy_later_request tbl ex req a =
     (case ex_newOrder ex 1 req of
        Inr d \<Rightarrow> req
      | Inl e \<Rightarrow>
          if str_includes (response_or_message e) ''Precision''
          then buy_readjusted tbl req a else req)"


definition shortSell_first_request ::
  "precision_table \<Rightarrow> position_mode option \<Rightarrow> exchange \<Rightarrow> short_sell_params
     \<Rightarrow> order_request" where
  "shortSell_first_request tbl cache ex p =
     shortSell_request (mr_mode (getPositionMode cache ex)) (ssp_symbol p)
       (sell_adjustPrecision tbl (ssp_amount p) (replace_slash (ssp_symbol p))) (ssp_price p)"

text \<open>A multiple of the minimal unit \<open>10^-q\<close>.\<close>

definition on_grid :: "nat \<Rightarrow> real \<Rightarrow> bool" where
  "on_grid q x = (\<exists>k::int. x = of_int k / 10 ^ q)"

text \<open>The request of \<open>sell\<close> with its parameters set from a fresh answer \<open>flag\<close> of the
  exchange (lines 309-317).\<close>

definition cpos_sell_rebuilt ::
  "bool option \<Rightarrow> position_side \<Rightarrow> order_request \<Rightarrow> order_request" where
  "cpos_sell_rebuilt flag positionSide req =
     req\<lparr>or_params :=
           (if mode_of_flag flag = DUAL_SIDE
            then (or_params req)\<lparr>op_positionSide := Some positionSide, op_reduceOnly := None\<rparr>
            else (or_params req)\<lparr>op_reduceOnly := Some True, op_positionSide := None\<rparr>)\<rparr>"


section \<open>The conditions under which a call reaches its retry loop\<close>

text \<open>The parameter checks at the head of each function pass
  (\<open>buy.ts\<close> lines 214-235, \<open>sell.ts\<close> lines 135-144 and 267-275,
  \<open>close_position.ts\<close> lines 124-142).\<close>

definition buy_validated :: "buy_params \<Rightarrow> bool" where
  "buy_validated p =
     (bp_symbol p \<noteq> [] \<and> str_includes (bp_symbol p) ''/'' \<and> 0 < bp_amount p
      \<and> 1 \<le> (case bp_leverage p of None \<Rightarrow> 10 | Some l \<Rightarrow> l)
      \<and> (case bp_leverage p of None \<Rightarrow> 10 | Some l \<Rightarrow> l) \<le> 30)"


definition shortSell_validated :: "short_sell_params \<Rightarrow> bool" where
  "shortSell_validated p =
     (ssp_symbol p \<noteq> [] \<and> str_includes (ssp_symbol p) ''/'' \<and> 0 < ssp_amount p)"

definition cpos_sell_validated :: "sell_params \<Rightarrow> bool" where
  "cpos_sell_validated p =
     (sp_symbol p \<noteq> [] \<and> str_includes (sp_symbol p) ''/''
      \<and> 0 < (case sp_percentage p of None \<Rightarrow> 100 | Some x \<Rightarrow> x)
      \<and> (case sp_percentage p of None \<Rightarrow> 100 | Some x \<Rightarrow> x) \<le> 100)"

text \<open>\<open>ensureTimeSync\<close> and \<open>getBinanceInstance\<close> return.\<close>

definition clients_ready :: "exchange \<Rightarrow> bool" where
  "clients_ready ex = (ex_ensureTimeSync ex = None \<and> ex_getBinanceInstance ex = None)"

text \<open>The amount that \<open>shortSell\<close> submits, and whether it passes the check of
  lines 283-289.\<close>

definition shortSell_adjustedAmount :: "precision_table \<Rightarrow> short_sell_params \<Rightarrow> real" where
  "shortSell_adjustedAmount tbl p =
     sell_adjustPrecision tbl (ssp_amount p) (replace_slash (ssp_symbol p))"

definition shortSell_amount_accepted :: "precision_table \<Rightarrow> short_sell_params \<Rightarrow> bool" where
  "shortSell_amount_accepted tbl p =
     (0 < shortSell_adjustedAmount tbl p
      \<and> minAmount_of tbl (replace_slash (ssp_symbol p)) \<le> shortSell_adjustedAmount tbl p)"


definition cpos_sell_settled ::
  "precision_table \<Rightarrow> exchange \<Rightarrow> sell_params \<Rightarrow> (real \<times> position_side \<times> real) option" where
  "cpos_sell_settled tbl ex p =
     (case cpos_sell_sellAmount tbl ex (sp_symbol p)
             (case sp_percentage p of None \<Rightarrow> 100 | Some x \<Rightarrow> x) (sp_amount p) of
        Inl result \<Rightarrow> None
      | Inr (sellAmount, positionSide, positionSize) \<Rightarrow>
          (case cpos_sell_finalAmount tbl (sp_symbol p) sellAmount positionSize of
             Inl result \<Rightarrow> None
           | Inr finalAmount \<Rightarrow> Some (finalAmount, positionSide, positionSize)))"

text \<open>The request of \<open>sell\<close> once the import resolves.\<close>

definition cpos_sell_first_request ::
  "position_mode option \<Rightarrow> exchange \<Rightarrow> sell_params \<Rightarrow> position_side \<Rightarrow> real
     \<Rightarrow> order_request" where
  "cpos_sell_first_request cache ex p positionSide finalAmount =
     closePosition_request (mr_mode (getPositionMode cache ex)) (sp_symbol p) positionSide
       finalAmount (sp_price p)"

text \<open>
  What a call leaves behind when its retry loop ends as \<open>looped\<close> after the resolution
  \<open>resolved\<close> of the position mode: the filled order, or the result that the outer \<open>catch\<close>
  makes of the error.
\<close>

definition loop_outcome ::
  "(js_error \<Rightarrow> trade_result) \<Rightarrow> (js_error + order_data) \<times> event list \<Rightarrow> mode_result
     \<Rightarrow> outcome" where
  "loop_outcome caught looped resolved =
     \<lparr>out_result = (case fst looped of Inr orderResult \<Rightarrow> filled orderResult
                                        | Inl error \<Rightarrow> caught error),
      out_events = mr_events resolved @ snd looped,
      out_cache = mr_cache resolved\<rparr>"

text \<open>What a call of \<open>closePosition\<close>, \<open>shortSell\<close> or \<open>sell\<close> leaves behind when it gets as
  far as the call of the imported \<open>getPositionMode\<close> and the name is bound to nothing.\<close>

definition unbound_outcome :: "string \<Rightarrow> position_mode option \<Rightarrow> outcome" where
  "unbound_outcome fallback positionModeCache =
     returns (sell_caught (type_error ''getPositionMode is not a function'') fallback)
       positionModeCache"


section \<open>Calls on the pair BTC/USDT\<close>

definition buy_btc :: "real \<Rightarrow> real \<Rightarrow> real option \<Rightarrow> buy_params" where
  "buy_btc amount leverage price =
     \<lparr>bp_symbol = ''BTC/USDT'', bp_amount = amount, bp_leverage = Some leverage,
      bp_price = price\<rparr>"


definition short_btc :: "real \<Rightarrow> real option \<Rightarrow> short_sell_params" where
  "short_btc amount price =
     \<lparr>ssp_symbol = ''BTC/USDT'', ssp_amount = amount, ssp_price = price, ssp_leverage = None\<rparr>"

definition sell_btc :: "real option \<Rightarrow> real option \<Rightarrow> sell_params" where
  "sell_btc percentage amount =
     \<lparr>sp_symbol = ''BTC/USDT'', sp_percentage = percentage, sp_amount = amount,
      sp_price = None\<rparr>"

text \<open>The order data with which the scenarios fill an order.\<close>

definition fill_of :: "string \<Rightarrow> order_request \<Rightarrow> order_data" where
  "fill_of orderId req =
     \<lparr>od_orderId = Some orderId, od_avgPrice = Some 50000, od_price = None,
      od_executedQty = Some (js_value (op_quantity (or_params req))), od_origQty = None\<rparr>"


section \<open>The small-amount escalation in the words of the specification\<close>






section \<open>Properties of the quantizers\<close>

lemma floor_grid_le:
  fixes x :: real
  shows "of_int \<lfloor>x * 10 ^ q\<rfloor> / (10::real) ^ q \<le> x"
proof -
  have "of_int \<lfloor>x * 10 ^ q\<rfloor> \<le> x * 10 ^ q" by (rule of_int_floor_le)
  then show ?thesis by (simp add: pos_divide_le_eq)
qed

lemma floor_grid_plus_unit_gt:
  fixes x :: real
  shows "x < of_int \<lfloor>x * 10 ^ q\<rfloor> / (10::real) ^ q + 1 / (10::real) ^ q"
proof -
  have "x * 10 ^ q < of_int \<lfloor>x * 10 ^ q\<rfloor> + 1" by linarith
  then have "x < (of_int \<lfloor>x * 10 ^ q\<rfloor> + 1) / 10 ^ q" by (simp add: pos_less_divide_eq)
  then show ?thesis by (simp add: add_divide_distrib)
qed

lemma floor_grid_nonneg:
  fixes x :: real
  assumes "0 \<le> x"
  shows "0 \<le> of_int \<lfloor>x * 10 ^ q\<rfloor> / (10::real) ^ q"
proof -
  have "0 \<le> x * 10 ^ q" using assms by simp
  then have "0 \<le> \<lfloor>x * 10 ^ q\<rfloor>" by simp
  then show ?thesis by simp
qed

lemma sell_adjustPrecision_pos:
  assumes "0 < raw"
  shows "0 < sell_adjustPrecision tbl raw symbol"
proof -
  let ?q = "quantity (config_of tbl symbol)"
  let ?a = "of_int \<lfloor>raw * 10 ^ ?q\<rfloor> / (10::real) ^ ?q"
  have nn: "0 \<le> ?a" using assms by (intro floor_grid_nonneg) simp
  show ?thesis
  proof (cases "?a = 0")
    case True
    then show ?thesis using assms by (simp add: sell_adjustPrecision_def Let_def)
  next
    case False
    with nn have "0 < ?a" by linarith
    with False show ?thesis by (simp add: sell_adjustPrecision_def Let_def)
  qed
qed

text \<open>
  C1 (as amended).  For every table of rules, every symbol and every raw amount \<open>raw > 0\<close>,
  \<open>adjustPrecision\<close> of \<open>sell.ts\<close> returns \<open>\<lfloor>raw \<times> 10^d\<rfloor> / 10^d\<close> when that is not zero
  and the minimal unit \<open>10^-d\<close> otherwise, and the result is strictly positive.
  \<open>adjustPrecision\<close> of \<open>buy.ts\<close> returns \<open>\<lfloor>raw \<times> 10^d\<rfloor> / 10^d\<close> in every case, which is
  never negative for \<open>raw > 0\<close>.
\<close>

theorem C1_adjustPrecision_positive:
  assumes "0 < raw"
  shows "0 < sell_adjustPrecision tbl raw symbol
       \<and> sell_adjustPrecision tbl raw symbol =
           (let d = quantity (config_of tbl symbol);
                floored = of_int \<lfloor>raw * 10 ^ d\<rfloor> / 10 ^ d
            in if floored = 0 then 1 / 10 ^ d else floored)
       \<and> buy_adjustPrecision tbl raw symbol =
           (let d = quantity (config_of tbl symbol) in of_int \<lfloor>raw * 10 ^ d\<rfloor> / 10 ^ d)
       \<and> 0 \<le> buy_adjustPrecision tbl raw symbol"
proof -
  have a: "0 < sell_adjustPrecision tbl raw symbol"
    using assms by (rule sell_adjustPrecision_pos)
  have b: "0 \<le> buy_adjustPrecision tbl raw symbol"
    unfolding buy_adjustPrecision_def Let_def
    using assms by (intro floor_grid_nonneg) simp
  show ?thesis
    using a b assms by (simp add: sell_adjustPrecision_def buy_adjustPrecision_def Let_def)
qed

theorem C1_adjustPrecision_positive_witness:
  "(0::real) < 1 / 10000
   \<and> sell_adjustPrecision sell_SYMBOL_PRECISION (1 / 10000) ''BTCUSDT'' = 1 / 1000
   \<and> 0 < sell_adjustPrecision sell_SYMBOL_PRECISION (1 / 10000) ''BTCUSDT''"
  using C1_adjustPrecision_positive [of "1 / 10000" sell_SYMBOL_PRECISION "''BTCUSDT''"]
  by (simp add: sell_SYMBOL_PRECISION_def config_of_def Let_def)

text \<open>
  C1 as stated fails for \<open>adjustPrecision\<close> of \<open>buy.ts\<close>: a request of 0.0001 BTC is
  positive and is quantized to 0.
\<close>

theorem C1_buy_adjustPrecision_zero_counterexample:
  "(0::real) < 1 / 10000 \<and> buy_adjustPrecision buy_SYMBOL_PRECISION (1 / 10000) ''BTCUSDT'' = 0"
  by (simp add: buy_adjustPrecision_def buy_SYMBOL_PRECISION_def config_of_def Let_def)

text \<open>
  C8.  For every table of rules, every symbol, every amount and leverage and every price
  \<open>price > 0\<close>, \<open>smartAdjustOrderForMinNotional\<close> returns an adjustment whose amount times
  the price is at least the rule's \<open>minNotional\<close>.  When the requested amount undershoots, the
  returned amount is the quantized \<open>minNotional / price\<close>, or that plus exactly one minimal
  unit \<open>10^-d\<close> when the quantized value still undershoots; so one increment always
  suffices and the check \<open>finalNotional < minNotional\<close> that follows in \<open>buy\<close> never fires.
\<close>

theorem C8_one_increment_suffices:
  assumes "0 < currentPrice"
  shows "\<exists>adj. buy_smartAdjustOrderForMinNotional tbl amount symbol currentPrice leverage = Some adj
           \<and> minNotional (config_of tbl (replace_slash symbol)) \<le> ba_adjustedAmount adj * currentPrice
           \<and> (amount * currentPrice < minNotional (config_of tbl (replace_slash symbol)) \<longrightarrow>
                (let config = config_of tbl (replace_slash symbol);
                     quantized = buy_adjustPrecision tbl (minNotional config / currentPrice)
                                   (replace_slash symbol)
                 in ba_adjustedAmount adj =
                      (if quantized * currentPrice < minNotional config
                       then quantized + 1 / 10 ^ quantity config else quantized)))"
proof -
  let ?cfg = "config_of tbl (replace_slash symbol)"
  let ?m = "minNotional ?cfg"
  let ?q = "quantity ?cfg"
  let ?r = "of_int \<lfloor>?m / currentPrice * 10 ^ ?q\<rfloor> / (10::real) ^ ?q"
  have r_eq: "buy_adjustPrecision tbl (?m / currentPrice) (replace_slash symbol) = ?r"
    by (simp add: buy_adjustPrecision_def Let_def)
  have "?m / currentPrice < ?r + 1 / 10 ^ ?q" by (rule floor_grid_plus_unit_gt)
  then have up: "?m < (?r + 1 / 10 ^ ?q) * currentPrice"
    using assms by (simp add: pos_divide_less_eq)
  show ?thesis
  proof (cases "?m \<le> amount * currentPrice")
    case True
    then show ?thesis
      by (simp add: buy_smartAdjustOrderForMinNotional_def Let_def)
  next
    case False
    note low = this
    have ne: "currentPrice \<noteq> 0" using assms by simp
    show ?thesis
    proof (cases "?r * currentPrice < ?m")
      case True
      have "buy_smartAdjustOrderForMinNotional tbl amount symbol currentPrice leverage =
              Some \<lparr>ba_adjustedAmount = ?r + 1 / 10 ^ ?q, ba_adjustedLeverage = leverage,
                    ba_adjustmentType = AdjAmount\<rparr>"
        unfolding buy_smartAdjustOrderForMinNotional_def Let_def r_eq
        using low ne True by simp
      then show ?thesis using up True low by (simp add: r_eq Let_def)
    next
      case False
      have "buy_smartAdjustOrderForMinNotional tbl amount symbol currentPrice leverage =
              Some \<lparr>ba_adjustedAmount = ?r, ba_adjustedLeverage = leverage, ba_adjustmentType = AdjAmount\<rparr>"
        unfolding buy_smartAdjustOrderForMinNotional_def Let_def r_eq
        using low ne False by simp
      then show ?thesis using False low by (simp add: r_eq Let_def)
    qed
  qed
qed

theorem C8_one_increment_suffices_witness:
  "(0::real) < 30000
   \<and> buy_smartAdjustOrderForMinNotional buy_SYMBOL_PRECISION (1 / 1000) ''BTC/USDT'' 30000 10
       = Some \<lparr>ba_adjustedAmount = 4 / 1000, ba_adjustedLeverage = 10, ba_adjustmentType = AdjAmount\<rparr>
   \<and> (100::real) \<le> 4 / 1000 * 30000"
  using C8_one_increment_suffices [of 30000 buy_SYMBOL_PRECISION "1 / 1000" "''BTC/USDT''" 10]
  by (simp add: buy_smartAdjustOrderForMinNotional_def buy_adjustPrecision_def
      buy_SYMBOL_PRECISION_def config_of_def replace_slash_def Let_def)

section \<open>Properties of \<open>getPositionMode\<close>\<close>

lemma getPositionMode_cached:
  "getPositionMode (Some m) ex = \<lparr>mr_mode = m, mr_cache = Some m, mr_events = []\<rparr>"
  by (simp add: getPositionMode_def)

lemma getPositionMode_caches_result:
  "mr_cache (getPositionMode c ex) = Some (mr_mode (getPositionMode c ex))"
  by (simp add: getPositionMode_def split: option.splits prod.splits)

lemma getPositionMode_failed:
  assumes "resolution_failed ex"
  shows "mr_mode (getPositionMode None ex) = ONE_WAY"
  using assms
  by (auto simp: getPositionMode_def resolution_failed_def split: option.splits prod.splits)

text \<open>
  C10.  \<open>getPositionMode\<close> returns a mode on every path: each call that can throw is a
  branch of the model and each such branch ends in a returned mode.  When the cache is empty
  and the resolution fails (the client or the time synchronisation throws, or neither the SDK
  call nor the REST call yields an answer), it returns \<open>ONE_WAY\<close> and stores \<open>ONE_WAY\<close> in
  the cache; every later call, whatever the exchange would answer then, returns \<open>ONE_WAY\<close>
  from the cache, issues no query and leaves the cache as it is.
\<close>

theorem C10_failure_cached_permanently:
  assumes "resolution_failed ex"
  shows "mr_mode (getPositionMode None ex) = ONE_WAY
       \<and> mr_cache (getPositionMode None ex) = Some ONE_WAY
       \<and> getPositionMode (mr_cache (getPositionMode None ex)) ex'
           = \<lparr>mr_mode = ONE_WAY, mr_cache = Some ONE_WAY, mr_events = []\<rparr>"
proof -
  have m: "mr_mode (getPositionMode None ex) = ONE_WAY"
    using assms by (rule getPositionMode_failed)
  have c: "mr_cache (getPositionMode None ex) = Some ONE_WAY"
    using getPositionMode_caches_result [of None ex] m by simp
  show ?thesis using m c by (simp add: getPositionMode_cached)
qed


section \<open>Arithmetic on finite JavaScript numbers\<close>

lemma js_finite_simps [simp]:
  "js_finite (Fin r)" "js_finite NegZero" "\<not> js_finite PosInf" "\<not> js_finite NegInf"
  "\<not> js_finite NaN"
  by (simp_all add: js_finite_def)

lemma js_value_simps [simp]:
  "js_value (Fin r) = r" "js_value NegZero = 0" "js_value PosInf = 0" "js_value NegInf = 0"
  "js_value NaN = 0"
  by (simp_all add: js_value_def)

lemma js_negative_simps [simp]:
  "js_negative (Fin r) = (r < 0)" "js_negative NegZero" "\<not> js_negative PosInf"
  "js_negative NegInf" "\<not> js_negative NaN"
  by (simp_all add: js_negative_def)

lemma js_signed_simps [simp]:
  "js_finite (js_signed s r)" "js_value (js_signed s r) = r" "js_signed s r \<noteq> NaN"
  "js_signed False r = Fin r" "r \<noteq> 0 \<Longrightarrow> js_signed s r = Fin r"
  "js_signed True 0 = NegZero"
  by (simp_all add: js_signed_def)

lemma js_finite_not_NaN: "js_finite x \<Longrightarrow> x \<noteq> NaN"
  by (cases x) simp_all

lemma js_finite_cases:
  assumes "js_finite x"
  obtains r where "x = Fin r" | "x = NegZero"
  using assms by (cases x) simp_all

lemma js_mul_finite:
  assumes "js_finite x" and "js_finite y"
  shows "js_finite (js_mul x y)" and "js_value (js_mul x y) = js_value x * js_value y"
  using assms js_finite_not_NaN by (auto simp: js_mul_def Let_def)

lemma js_div_finite:
  assumes "js_finite x" and "js_finite y" and "js_value y \<noteq> 0"
  shows "js_finite (js_div x y)" and "js_value (js_div x y) = js_value x / js_value y"
  using assms js_finite_not_NaN by (auto simp: js_div_def Let_def)

lemma js_add_finite:
  assumes "js_finite x" and "js_finite y"
  shows "js_finite (js_add x y)" and "js_value (js_add x y) = js_value x + js_value y"
  using assms js_finite_not_NaN by (auto simp: js_add_def)

lemma js_floor_finite:
  assumes "js_finite x"
  shows "js_finite (js_floor x)" and "js_value (js_floor x) = of_int \<lfloor>js_value x\<rfloor>"
  using assms by (cases x; simp add: js_floor_def)+

lemma js_ceil_finite:
  assumes "js_finite x"
  shows "js_finite (js_ceil x)" and "js_value (js_ceil x) = of_int \<lceil>js_value x\<rceil>"
  using assms by (cases x; simp add: js_ceil_def)+

lemma js_lt_finite:
  assumes "js_finite x" and "js_finite y"
  shows "js_lt x y = (js_value x < js_value y)"
  using assms js_finite_not_NaN by (auto simp: js_lt_def)

lemma js_le_finite:
  assumes "js_finite x" and "js_finite y"
  shows "js_le x y = (js_value x \<le> js_value y)"
  using assms js_finite_not_NaN by (auto simp: js_le_def js_lt_finite)

lemma js_eq_finite:
  assumes "js_finite x" and "js_finite y"
  shows "js_eq x y = (js_value x = js_value y)"
  using assms js_finite_not_NaN by (auto simp: js_eq_def js_lt_finite)

lemma js_min_finite:
  assumes "js_finite x" and "js_finite y"
  shows "js_finite (js_min x y)" and "js_value (js_min x y) = min (js_value x) (js_value y)"
  using assms js_finite_not_NaN
  by (auto simp: js_min_def js_lt_finite min_def elim!: js_finite_cases)

text \<open>On operands that are not negative the results are the numbers themselves.\<close>

lemma js_mul_Fin: "js_mul (Fin a) (Fin b) = js_signed ((a < 0) \<noteq> (b < 0)) (a * b)"
  by (simp add: js_mul_def)

lemma js_mul_Fin_nonneg: "0 \<le> a \<Longrightarrow> 0 \<le> b \<Longrightarrow> js_mul (Fin a) (Fin b) = Fin (a * b)"
  by (simp add: js_mul_Fin)

lemma js_div_Fin:
  "js_div (Fin a) (Fin b) =
     (if b = 0 then (if a = 0 then NaN else js_infinity (a < 0))
      else js_signed ((a < 0) \<noteq> (b < 0)) (a / b))"
  by (simp add: js_div_def)

lemma js_div_Fin_pos: "0 \<le> a \<Longrightarrow> 0 < b \<Longrightarrow> js_div (Fin a) (Fin b) = Fin (a / b)"
  by (simp add: js_div_Fin)

lemma js_add_Fin: "js_add (Fin a) (Fin b) = Fin (a + b)"
  by (simp add: js_add_def)

lemma js_floor_Fin: "js_floor (Fin a) = Fin (of_int \<lfloor>a\<rfloor>)"
  by (simp add: js_floor_def)

lemma js_ceil_Fin: "js_ceil (Fin a) = js_signed (a < 0) (of_int \<lceil>a\<rceil>)"
  by (simp add: js_ceil_def)

lemma js_lt_Fin: "js_lt (Fin a) (Fin b) = (a < b)"
  by (simp add: js_lt_def)

lemma js_le_Fin: "js_le (Fin a) (Fin b) = (a \<le> b)"
  by (auto simp: js_le_def js_lt_def)

lemma js_eq_Fin: "js_eq (Fin a) (Fin b) = (a = b)"
  by (auto simp: js_eq_def js_lt_def)

lemma js_min_Fin: "js_min (Fin a) (Fin b) = Fin (min a b)"
  by (auto simp: js_min_def js_lt_def min_def)

text \<open>What the arithmetic does with the values that are not finite, where \<open>buy\<close> meets them.\<close>

lemma js_special:
  "js_mul PosInf (Fin 0) = NaN"
  "0 < b \<Longrightarrow> js_mul PosInf (Fin b) = PosInf"
  "0 < b \<Longrightarrow> js_div PosInf (Fin b) = PosInf"
  "js_floor PosInf = PosInf"
  "js_add PosInf (Fin b) = PosInf"
  "\<not> js_lt NaN y" "\<not> js_lt x NaN" "\<not> js_le NaN y" "\<not> js_le x NaN"
  "\<not> js_eq NaN y" "\<not> js_eq x NaN"
  "\<not> js_lt PosInf y" "\<not> js_le PosInf (Fin b)" "\<not> js_eq PosInf (Fin b)"
  "js_ceil PosInf = PosInf" "js_ceil NaN = NaN"
  "js_min NaN y = NaN" "js_min x NaN = NaN"
  by (auto simp: js_mul_def js_div_def js_floor_def js_add_def js_lt_def js_le_def js_eq_def
      js_ceil_def js_min_def js_infinity_def)

section \<open>The quantizer and the adjustment of \<open>buy\<close> on finite numbers\<close>

lemma buy_adjustPrecision_num_finite:
  assumes "js_finite x"
  shows "js_finite (buy_adjustPrecision_num tbl x s)"
    and "js_value (buy_adjustPrecision_num tbl x s) = buy_adjustPrecision tbl (js_value x) s"
  using assms
  by (simp_all add: buy_adjustPrecision_num_def buy_adjustPrecision_def Let_def
      js_div_finite js_floor_finite js_mul_finite)

lemma buy_adjustPrecision_num_Fin:
  assumes "0 \<le> x"
  shows "buy_adjustPrecision_num tbl (Fin x) s = Fin (buy_adjustPrecision tbl x s)"
proof -
  let ?f = "(10::real) ^ quantity (config_of tbl s)"
  have "0 \<le> x * ?f" using assms by simp
  then have "(0::real) \<le> of_int \<lfloor>x * ?f\<rfloor>" by simp
  then show ?thesis
    using assms
    by (simp add: buy_adjustPrecision_num_def buy_adjustPrecision_def Let_def
        js_mul_Fin_nonneg js_floor_Fin js_div_Fin_pos)
qed

lemma buy_adjustPrecision_nonneg: "0 \<le> x \<Longrightarrow> 0 \<le> buy_adjustPrecision tbl x s"
  unfolding buy_adjustPrecision_def Let_def by (intro floor_grid_nonneg) simp

text \<open>At a positive price and for a request that is not negative, the adjustment on all
  numbers is the adjustment on real numbers.\<close>

lemma buy_smartAdjust_num_Fin:
  assumes cp: "0 < cp" and a: "0 \<le> a"
    and m: "0 \<le> minNotional (config_of tbl (replace_slash symbol))"
  shows "\<exists>adj. buy_smartAdjustOrderForMinNotional tbl a symbol cp lev = Some adj
           \<and> 0 \<le> ba_adjustedAmount adj
           \<and> buy_smartAdjustOrderForMinNotional_num tbl (Fin a) symbol (Fin cp) l
               = \<lparr>na_adjustedAmount = Fin (ba_adjustedAmount adj), na_adjustedLeverage = l,
                  na_adjustmentType = ba_adjustmentType adj\<rparr>"
proof -
  let ?bs = "replace_slash symbol"
  let ?m = "minNotional (config_of tbl ?bs)"
  let ?r = "buy_adjustPrecision tbl (?m / cp) ?bs"
  have q: "0 \<le> ?m / cp" using cp m by simp
  have r: "buy_adjustPrecision_num tbl (Fin (?m / cp)) ?bs = Fin ?r"
    using q by (rule buy_adjustPrecision_num_Fin)
  have r0: "0 \<le> ?r" using q by (rule buy_adjustPrecision_nonneg)
  have ne: "cp \<noteq> 0" using cp by simp
  show ?thesis
    using cp a m r r0 ne
    by (simp add: buy_smartAdjustOrderForMinNotional_def
        buy_smartAdjustOrderForMinNotional_num_def Let_def js_mul_Fin_nonneg js_le_Fin
        js_div_Fin_pos js_lt_Fin js_add_Fin not_le)
qed

section \<open>Unfolding the retry loops\<close>

lemma sell_order_loop_3:
  "sell_order_loop ex req 3 =
     (case ex_newOrder ex 3 req of
        Inr d \<Rightarrow> (Inr (Some d), [NewOrder req])
      | Inl e \<Rightarrow> (Inl e, [NewOrder req]))"
  by (subst sell_order_loop.simps) (simp cong: sum.case_cong)

lemma sell_order_loop_2:
  "sell_order_loop ex req 2 =
     (case ex_newOrder ex 2 req of
        Inr d \<Rightarrow> (Inr (Some d), [NewOrder req])
      | Inl e \<Rightarrow>
          (case sell_order_loop ex req 3 of
             (r, evs) \<Rightarrow> (r, NewOrder req # Sleep 4000 # evs)))"
  by (subst sell_order_loop.simps) (simp cong: sum.case_cong)

lemma sell_order_loop_1:
  "sell_order_loop ex req (Suc 0) =
     (case ex_newOrder ex 1 req of
        Inr d \<Rightarrow> (Inr (Some d), [NewOrder req])
      | Inl e \<Rightarrow>
          (case sell_order_loop ex req 2 of
             (r, evs) \<Rightarrow> (r, NewOrder req # Sleep 2000 # evs)))"
  by (subst sell_order_loop.simps) (simp add: numeral_2_eq_2 cong: sum.case_cong)

lemma buy_order_loop_3:
  "buy_order_loop tbl ex req a 3 =
     (case ex_newOrder ex 3 req of
        Inr d \<Rightarrow> (Inr (Some d), [NewOrder req])
      | Inl e \<Rightarrow> (Inl e, [NewOrder req]))"
  by (subst buy_order_loop.simps) (simp add: Let_def cong: sum.case_cong)

lemma buy_order_loop_2:
  "buy_order_loop tbl ex req a 2 =
     (case ex_newOrder ex 2 req of
        Inr d \<Rightarrow> (Inr (Some d), [NewOrder req])
      | Inl e \<Rightarrow>
          (case buy_order_loop tbl ex req a 3 of
             (r, evs) \<Rightarrow> (r, NewOrder req # Sleep 6000 # evs)))"
  by (subst buy_order_loop.simps) (simp add: Let_def cong: sum.case_cong)

lemma buy_order_loop_1:
  "buy_order_loop tbl ex req a (Suc 0) =
     (case ex_newOrder ex 1 req of
        Inr d \<Rightarrow> (Inr (Some d), [NewOrder req])
      | Inl e \<Rightarrow>
          (if str_includes (response_or_message e) ''Precision''
           then (case buy_order_loop tbl ex (buy_readjusted tbl req a)
                        (buy_adjustPrecision_num tbl
                           (js_add a (Fin (minAmount_of tbl (or_symbol req)))) (or_symbol req))
                        2 of
                   (r, evs) \<Rightarrow> (r, NewOrder req # Sleep 3000 # evs))
           else (case buy_order_loop tbl ex req a 2 of
                   (r, evs) \<Rightarrow> (r, NewOrder req # Sleep 3000 # evs))))"
  by (subst buy_order_loop.simps)
     (auto simp: Let_def numeral_2_eq_2 buy_readjusted_def split: sum.splits)

lemma cpos_sell_loop_3:
  "cpos_sell_loop ex positionSide req 3 =
     (case ex_newOrder ex 3 req of
        Inr d \<Rightarrow> (Inr (Some d), [NewOrder req])
      | Inl e \<Rightarrow> (Inl e, [NewOrder req]))"
  by (subst cpos_sell_loop.simps) (simp add: Let_def cong: sum.case_cong)

lemma cpos_sell_loop_2:
  "cpos_sell_loop ex positionSide req 2 =
     (case ex_newOrder ex 2 req of
        Inr d \<Rightarrow> (Inr (Some d), [NewOrder req])
      | Inl e \<Rightarrow>
          (case cpos_sell_loop ex positionSide req 3 of
             (r, evs) \<Rightarrow> (r, NewOrder req # Sleep 4000 # evs)))"
  by (subst cpos_sell_loop.simps) (simp add: Let_def cong: sum.case_cong)

lemma cpos_sell_loop_1:
  "cpos_sell_loop ex positionSide req (Suc 0) =
     (case ex_newOrder ex 1 req of
        Inr d \<Rightarrow> (Inr (Some d), [NewOrder req])
      | Inl e \<Rightarrow>
          (if str_includes (response_or_message e) ''position side does not match''
           then (case cpos_sell_rebuild ex positionSide req of
                   (Inl thrown, evs1) \<Rightarrow> (Inl thrown, NewOrder req # evs1)
                 | (Inr req', evs1) \<Rightarrow>
                     (case cpos_sell_loop ex positionSide req' 2 of
                        (r, evs) \<Rightarrow> (r, NewOrder req # evs1 @ Sleep 2000 # evs)))
           else (case cpos_sell_loop ex positionSide req 2 of
                   (r, evs) \<Rightarrow> (r, NewOrder req # Sleep 2000 # evs))))"
  by (subst cpos_sell_loop.simps)
     (simp add: Let_def numeral_2_eq_2 cong: sum.case_cong split: prod.splits sum.splits)


section \<open>The preparation of \<open>buy\<close> at a positive price\<close>

lemma on_grid_floor: "on_grid q (of_int \<lfloor>x * 10 ^ q\<rfloor> / 10 ^ q)"
  by (auto simp: on_grid_def)

lemma on_grid_plus_unit: "on_grid q x \<Longrightarrow> on_grid q (x + 1 / 10 ^ q)"
proof -
  assume "on_grid q x"
  then obtain k :: int where "x = of_int k / 10 ^ q" by (auto simp: on_grid_def)
  then have "x + 1 / 10 ^ q = of_int (k + 1) / 10 ^ q" by (simp add: add_divide_distrib)
  then show ?thesis unfolding on_grid_def by blast
qed

lemma on_grid_below_unit:
  assumes "on_grid q x" and "x < 1 / 10 ^ q"
  shows "x \<le> 0"
proof -
  from assms(1) obtain k :: int where k: "x = of_int k / 10 ^ q" by (auto simp: on_grid_def)
  have "of_int k < (1::real)" using assms(2) unfolding k by (simp add: divide_less_eq)
  then have "k \<le> 0" by linarith
  then show ?thesis unfolding k by (simp add: divide_le_0_iff)
qed

lemma on_grid_readjust:
  assumes "on_grid q a" and "0 \<le> m"
  shows "a \<le> of_int \<lfloor>(a + m) * 10 ^ q\<rfloor> / 10 ^ q"
proof -
  from assms(1) obtain k :: int where k: "a = of_int k / 10 ^ q" by (auto simp: on_grid_def)
  have "(a + m) * 10 ^ q = of_int k + m * 10 ^ q" unfolding k by (simp add: algebra_simps)
  moreover have "0 \<le> m * 10 ^ q" using assms(2) by simp
  ultimately have "of_int k \<le> (a + m) * 10 ^ q" by linarith
  then have "k \<le> \<lfloor>(a + m) * 10 ^ q\<rfloor>" by (simp add: le_floor_iff)
  then have "(of_int k :: real) \<le> of_int \<lfloor>(a + m) * 10 ^ q\<rfloor>" by simp
  then show ?thesis unfolding k by (simp add: divide_right_mono)
qed

lemma minAmount_of_le_unit:
  "minAmount_of tbl s \<le> 1 / 10 ^ quantity (config_of tbl s)"
  by (auto simp: minAmount_of_def config_of_def split: option.splits)

lemma minAmount_of_pos: "0 < minAmount_of tbl s"
  by (auto simp: minAmount_of_def split: option.splits)

lemma buy_adjustPrecision_on_grid:
  "on_grid (quantity (config_of tbl s)) (buy_adjustPrecision tbl x s)"
  by (simp add: buy_adjustPrecision_def Let_def on_grid_floor)

text \<open>A positive amount on the grid is at least the minimal amount.\<close>

lemma on_grid_pos_minAmount:
  assumes "on_grid (quantity (config_of tbl s)) a" and "0 < a"
  shows "minAmount_of tbl s \<le> a"
proof -
  have "\<not> a < 1 / 10 ^ quantity (config_of tbl s)"
    using on_grid_below_unit [OF assms(1)] assms(2) by auto
  then show ?thesis using minAmount_of_le_unit [of tbl s] by linarith
qed

text \<open>The amount that the first step of \<open>buy\<close> substitutes at the price \<open>cp\<close>: the quantized
  \<open>minNotional / cp\<close>, plus one minimal unit when that is worth less than \<open>minNotional\<close>.\<close>

lemma buy_smartAdjust_low:
  assumes cp: "0 < cp"
    and low: "a * cp < minNotional (config_of tbl (replace_slash symbol))"
  shows "\<exists>adj. buy_smartAdjustOrderForMinNotional tbl a symbol cp lev = Some adj
           \<and> ba_adjustedAmount adj
               = (if buy_adjustPrecision tbl
                       (minNotional (config_of tbl (replace_slash symbol)) / cp)
                       (replace_slash symbol) * cp
                     < minNotional (config_of tbl (replace_slash symbol))
                  then buy_adjustPrecision tbl
                         (minNotional (config_of tbl (replace_slash symbol)) / cp)
                         (replace_slash symbol)
                       + 1 / 10 ^ quantity (config_of tbl (replace_slash symbol))
                  else buy_adjustPrecision tbl
                         (minNotional (config_of tbl (replace_slash symbol)) / cp)
                         (replace_slash symbol))
           \<and> on_grid (quantity (config_of tbl (replace_slash symbol))) (ba_adjustedAmount adj)
           \<and> minNotional (config_of tbl (replace_slash symbol)) \<le> ba_adjustedAmount adj * cp"
proof -
  let ?cfg = "config_of tbl (replace_slash symbol)"
  let ?m = "minNotional ?cfg"
  let ?q = "quantity ?cfg"
  let ?r = "buy_adjustPrecision tbl (?m / cp) (replace_slash symbol)"
  have g: "on_grid ?q ?r" by (rule buy_adjustPrecision_on_grid)
  have "?m / cp < ?r + 1 / 10 ^ ?q"
    unfolding buy_adjustPrecision_def Let_def by (rule floor_grid_plus_unit_gt)
  then have up: "?m < (?r + 1 / 10 ^ ?q) * cp"
    using cp by (simp add: pos_divide_less_eq)
  have ne: "cp \<noteq> 0" using cp by simp
  show ?thesis
  proof (cases "?r * cp < ?m")
    case True
    then show ?thesis
      using low ne up g on_grid_plus_unit [OF g]
      by (simp add: buy_smartAdjustOrderForMinNotional_def Let_def)
  next
    case False
    then show ?thesis
      using low ne g by (simp add: buy_smartAdjustOrderForMinNotional_def Let_def)
  qed
qed

text \<open>An amount on the grid that is worth \<open>minNotional\<close> at a positive price passes the second
  step and the last checks unchanged.\<close>

lemma buy_steps_valid:
  assumes cp: "0 < cp"
    and m: "0 < minNotional (config_of tbl (replace_slash symbol))"
    and grid: "on_grid (quantity (config_of tbl (replace_slash symbol))) a"
    and worth: "minNotional (config_of tbl (replace_slash symbol)) \<le> a * cp"
  shows "buy_checkMinNotional tbl (Fin a) (replace_slash symbol) (Fin cp) = NotionalValid"
    and "buy_smallOrderStep tbl symbol (Fin a) l (Fin cp) = Ready (Fin a) l"
    and "buy_finalChecks tbl symbol amount (Fin a) l (Fin cp) = Ready (Fin a) l"
    and "0 < a" and "minAmount_of tbl (replace_slash symbol) \<le> a"
proof -
  have "0 < a * cp" using worth m by linarith
  then show pos: "0 < a" using cp by (simp add: zero_less_mult_iff)
  show big: "minAmount_of tbl (replace_slash symbol) \<le> a"
    using grid pos by (rule on_grid_pos_minAmount)
  show valid: "buy_checkMinNotional tbl (Fin a) (replace_slash symbol) (Fin cp) = NotionalValid"
    using pos cp worth
    by (simp add: buy_checkMinNotional_def Let_def js_mul_Fin_nonneg js_lt_Fin)
  show "buy_smallOrderStep tbl symbol (Fin a) l (Fin cp) = Ready (Fin a) l"
    using pos big by (simp add: buy_smallOrderStep_def Let_def js_eq_Fin js_lt_Fin)
  show "buy_finalChecks tbl symbol amount (Fin a) l (Fin cp) = Ready (Fin a) l"
    using pos big valid by (simp add: buy_finalChecks_def Let_def js_le_Fin js_lt_Fin)
qed

text \<open>
  The preparation of \<open>buy\<close> at a positive price, for a rule with a positive \<open>minNotional\<close>:
  the quantized amount when it is worth \<open>minNotional\<close>, else the amount of the first step; the
  leverage is the one requested.  For a symbol that is not in the table, line 282 throws when
  the first step had to adjust.
\<close>

lemma buy_prepare_positive:
  assumes cp: "0 < cp" and am: "0 < amount"
    and m: "0 < minNotional (config_of tbl (replace_slash symbol))"
  shows "buy_prepare tbl symbol amount lev (Fin cp) =
     (let binanceSymbol = replace_slash symbol;
          config = config_of tbl binanceSymbol;
          quantizedAmount = buy_adjustPrecision tbl amount binanceSymbol;
          quantized = buy_adjustPrecision tbl (minNotional config / cp) binanceSymbol
      in if minNotional config \<le> quantizedAmount * cp
         then Ready (Fin quantizedAmount) (Fin lev)
         else if tbl binanceSymbol = None
         then Thrown (type_error ''Cannot read properties of undefined (reading minNotional)'')
         else Ready (Fin (if quantized * cp < minNotional config
                          then quantized + 1 / 10 ^ quantity config else quantized))
                (Fin lev))"
proof -
  let ?bs = "replace_slash symbol"
  let ?cfg = "config_of tbl ?bs"
  let ?m = "minNotional ?cfg"
  let ?a0 = "buy_adjustPrecision tbl amount ?bs"
  have a0: "buy_adjustPrecision_num tbl (Fin amount) ?bs = Fin ?a0"
    using am by (intro buy_adjustPrecision_num_Fin) simp
  have a0_nn: "0 \<le> ?a0" using am by (intro buy_adjustPrecision_nonneg) simp
  have g0: "on_grid (quantity ?cfg) ?a0" by (rule buy_adjustPrecision_on_grid)
  show ?thesis
  proof (cases "?m \<le> ?a0 * cp")
    case True
    from buy_steps_valid [OF cp m g0 True]
    have "buy_checkMinNotional tbl (Fin ?a0) ?bs (Fin cp) = NotionalValid"
      and "buy_smallOrderStep tbl symbol (Fin ?a0) (Fin lev) (Fin cp) = Ready (Fin ?a0) (Fin lev)"
      and "buy_finalChecks tbl symbol amount (Fin ?a0) (Fin lev) (Fin cp)
             = Ready (Fin ?a0) (Fin lev)"
      by blast+
    then show ?thesis
      using True by (simp add: buy_prepare_def buy_minNotionalStep_def a0 Let_def)
  next
    case False
    then have low: "?a0 * cp < ?m" by simp
    let ?r = "buy_adjustPrecision tbl (?m / cp) ?bs"
    let ?a1 = "if ?r * cp < ?m then ?r + 1 / 10 ^ quantity ?cfg else ?r"
    from buy_smartAdjust_low [OF cp low, of lev] obtain adj where
      adj: "buy_smartAdjustOrderForMinNotional tbl ?a0 symbol cp lev = Some adj"
      and val: "ba_adjustedAmount adj = ?a1"
      and g1: "on_grid (quantity ?cfg) (ba_adjustedAmount adj)"
      and w1: "?m \<le> ba_adjustedAmount adj * cp"
      by (elim exE conjE) (rule that)
    have mm: "0 \<le> ?m" using m by simp
    from buy_smartAdjust_num_Fin [OF cp a0_nn mm, of lev "Fin lev"] adj
    have num: "buy_smartAdjustOrderForMinNotional_num tbl (Fin ?a0) symbol (Fin cp) (Fin lev)
                 = \<lparr>na_adjustedAmount = Fin (ba_adjustedAmount adj),
                    na_adjustedLeverage = Fin lev,
                    na_adjustmentType = ba_adjustmentType adj\<rparr>"
      and nn: "0 \<le> ba_adjustedAmount adj"
      by auto
    have inv: "\<exists>n mn r. buy_checkMinNotional tbl (Fin ?a0) ?bs (Fin cp) = NotionalInvalid n mn r"
      using low a0_nn cp
      by (simp add: buy_checkMinNotional_def Let_def js_mul_Fin_nonneg js_lt_Fin)
    show ?thesis
    proof (cases "tbl ?bs")
      case None
      then show ?thesis
        using inv low by (auto simp: buy_prepare_def buy_minNotionalStep_def a0 Let_def)
    next
      case (Some entry)
      then have e: "minNotional entry = ?m" by (simp add: config_of_def)
      have step1: "buy_minNotionalStep tbl symbol (Fin ?a0) (Fin lev) (Fin cp)
                     = Ready (Fin (ba_adjustedAmount adj)) (Fin lev)"
        using inv Some e w1 nn cp
        by (auto simp: buy_minNotionalStep_def num Let_def js_mul_Fin_nonneg js_lt_Fin)
      from buy_steps_valid [OF cp m g1 w1]
      have "buy_smallOrderStep tbl symbol (Fin (ba_adjustedAmount adj)) (Fin lev) (Fin cp)
              = Ready (Fin (ba_adjustedAmount adj)) (Fin lev)"
        and "buy_finalChecks tbl symbol amount (Fin (ba_adjustedAmount adj)) (Fin lev) (Fin cp)
              = Ready (Fin (ba_adjustedAmount adj)) (Fin lev)"
        by blast+
      then have "buy_prepare tbl symbol amount lev (Fin cp)
                   = Ready (Fin (ba_adjustedAmount adj)) (Fin lev)"
        using step1 by (simp add: buy_prepare_def a0 Let_def)
      then show ?thesis using low Some val by (simp add: Let_def)
    qed
  qed
qed

text \<open>What the prepared amount is worth.\<close>

lemma buy_prepare_positive_Ready:
  assumes cp: "0 < cp" and am: "0 < amount"
    and m: "0 < minNotional (config_of tbl (replace_slash symbol))"
    and r: "buy_prepare tbl symbol amount lev (Fin cp) = Ready a l"
  shows "\<exists>q. a = Fin q \<and> l = Fin lev \<and> 0 < q
           \<and> on_grid (quantity (config_of tbl (replace_slash symbol))) q
           \<and> minAmount_of tbl (replace_slash symbol) \<le> q
           \<and> minNotional (config_of tbl (replace_slash symbol)) \<le> q * cp"
proof -
  let ?bs = "replace_slash symbol"
  let ?cfg = "config_of tbl ?bs"
  let ?m = "minNotional ?cfg"
  let ?a0 = "buy_adjustPrecision tbl amount ?bs"
  have g0: "on_grid (quantity ?cfg) ?a0" by (rule buy_adjustPrecision_on_grid)
  show ?thesis
  proof (cases "?m \<le> ?a0 * cp")
    case True
    then have "a = Fin ?a0" "l = Fin lev"
      using r buy_prepare_positive [OF cp am m, of lev] by (simp_all add: Let_def)
    then show ?thesis using buy_steps_valid(4,5) [OF cp m g0 True] g0 True by simp
  next
    case False
    then have low: "?a0 * cp < ?m" by simp
    let ?r = "buy_adjustPrecision tbl (?m / cp) ?bs"
    from buy_smartAdjust_low [OF cp low, of lev] obtain adj where
      "buy_smartAdjustOrderForMinNotional tbl ?a0 symbol cp lev = Some adj"
      and val: "ba_adjustedAmount adj
              = (if ?r * cp < ?m then ?r + 1 / 10 ^ quantity ?cfg else ?r)"
      and g1: "on_grid (quantity ?cfg) (ba_adjustedAmount adj)"
      and w1: "?m \<le> ba_adjustedAmount adj * cp"
      by (elim exE conjE) (rule that)
    have "a = Fin (ba_adjustedAmount adj)" "l = Fin lev"
      using r buy_prepare_positive [OF cp am m, of lev] low val
      by (auto simp: Let_def split: if_splits)
    then show ?thesis using buy_steps_valid(4,5) [OF cp m g1 w1] g1 w1 by simp
  qed
qed

section \<open>The retry loops and the retry policy\<close>

lemma order_events_append: "order_events (a @ b) = order_events a @ order_events b"
  by (simp add: order_events_def)

lemma submitted_append: "submitted (a @ b) = submitted a @ submitted b"
  by (simp add: submitted_def)

lemma mode_queries_append: "mode_queries (a @ b) = mode_queries a @ mode_queries b"
  by (simp add: mode_queries_def)

lemma getPositionMode_events:
  "order_events (mr_events (getPositionMode c ex)) = []"
  "submitted (mr_events (getPositionMode c ex)) = []"
  by (auto simp: order_events_def submitted_def getPositionMode_def getPositionMode_sdk_def
      getPositionMode_rest_def split: option.splits sum.splits prod.splits)

lemma returns_simps [simp]:
  "out_result (returns r c) = r" "out_events (returns r c) = []" "out_cache (returns r c) = c"
  by (simp_all add: returns_def)

lemma failure_simps [simp]:
  "\<not> tr_success (failure e)" "tr_error (failure e) = Some e"
  by (simp_all add: failure_def)

lemma caught_simps [simp]:
  "\<not> tr_success (sell_caught e fb)"
  "tr_error (sell_caught e fb)
     = Some (Caught (if response_or_message e = [] then fb else response_or_message e))"
  "\<not> tr_success (buy_caught e fb)"
  "tr_error (buy_caught e fb) = Some (Caught (if err_message e = [] then fb else err_message e))"
  by (simp_all add: sell_caught_def buy_caught_def)

lemma filled_simps [simp]: "tr_success (filled d)" "tr_error (filled d) = None"
  by (simp_all add: filled_def)

lemma unbound_outcome_simps [simp]:
  "out_events (unbound_outcome fb c) = []" "out_cache (unbound_outcome fb c) = c"
  "\<not> tr_success (out_result (unbound_outcome fb c))"
  "tr_error (out_result (unbound_outcome fb c)) = Some (Caught ''getPositionMode is not a function'')"
  by (simp_all add: unbound_outcome_def sell_caught_def type_error_def response_or_message_def)

lemma loop_outcome_simps [simp]:
  "out_events (loop_outcome caught looped resolved) = mr_events resolved @ snd looped"
  "out_cache (loop_outcome caught looped resolved) = mr_cache resolved"
  "out_result (loop_outcome caught looped resolved)
     = (case fst looped of Inr d \<Rightarrow> filled d | Inl e \<Rightarrow> caught e)"
  by (simp_all add: loop_outcome_def)

text \<open>The loops of \<open>sell.ts\<close> and of \<open>buy.ts\<close> are the retry policy.\<close>

lemma sell_order_loop_policy:
  "sell_order_loop ex req (Suc 0)
     = (map_sum id Some (fst (retry_policy 2000 ex req req)), snd (retry_policy 2000 ex req req))"
  by (simp add: sell_order_loop_1 sell_order_loop_2 sell_order_loop_3 retry_policy_def
      split: sum.splits)

lemma buy_order_loop_policy:
  "buy_order_loop tbl ex req a (Suc 0)
     = (map_sum id Some (fst (retry_policy 3000 ex req (buy_later_request tbl ex req a))),
        snd (retry_policy 3000 ex req (buy_later_request tbl ex req a)))"
  by (simp add: buy_order_loop_1 buy_order_loop_2 buy_order_loop_3 retry_policy_def
      buy_later_request_def split: sum.splits)

lemma sell_after_loop_policy:
  "sell_after_loop (map_sum id Some (fst looped), snd looped) (mr_events resolved)
     (mr_cache resolved) fb
     = loop_outcome (\<lambda>e. sell_caught e fb) looped resolved"
  by (cases looped; cases "fst looped")
     (auto simp: sell_after_loop_def loop_outcome_def)

lemma buy_after_loop_policy:
  "buy_after_loop (map_sum id Some (fst looped), snd looped) (mr_events resolved)
     (mr_cache resolved)
     = loop_outcome (\<lambda>e. buy_caught e ''Unknown error occurred during buy'') looped resolved"
  by (cases looped; cases "fst looped")
     (auto simp: buy_after_loop_def loop_outcome_def)

text \<open>What the retry policy says.\<close>

lemma retry_policy_events:
  "order_events (snd (retry_policy b ex r1 r2)) = snd (retry_policy b ex r1 r2)"
  "mode_queries (snd (retry_policy b ex r1 r2)) = []"
  "length (submitted (snd (retry_policy b ex r1 r2))) \<le> 3"
  "submitted (snd (retry_policy b ex r1 r2)) \<noteq> []"
  "hd (submitted (snd (retry_policy b ex r1 r2))) = r1"
  "set (submitted (snd (retry_policy b ex r1 r2))) \<subseteq> {r1, r2}"
  by (auto simp: retry_policy_def order_events_def mode_queries_def submitted_def
      split: sum.splits)

lemma retry_policy_exhausted:
  assumes "ex_newOrder ex 1 r1 = Inl e1" and "ex_newOrder ex 2 r2 = Inl e2"
    and "ex_newOrder ex 3 r2 = Inl e3"
  shows "retry_policy b ex r1 r2
           = (Inl e3, [NewOrder r1, Sleep (1 * b), NewOrder r2, Sleep (2 * b), NewOrder r2])"
  using assms by (simp add: retry_policy_def)


section \<open>The calls as a whole\<close>

lemma buy_unfold:
  "buy tbl cache ex p =
     (if bp_symbol p = [] \<or> \<not> str_includes (bp_symbol p) ''/''
      then returns (failure InvalidSymbolFormat) cache
      else if bp_amount p \<le> 0 then returns (failure AmountNotPositive) cache
      else if (case bp_leverage p of None \<Rightarrow> 10 | Some l \<Rightarrow> l) < 1
              \<or> (case bp_leverage p of None \<Rightarrow> 10 | Some l \<Rightarrow> l) > 30
      then returns (failure LeverageOutOfRange) cache
      else (case ex_ensureTimeSync ex of
              Some error \<Rightarrow> returns (buy_caught error ''Unknown error occurred during buy'') cache
            | None \<Rightarrow>
               (case ex_getBinanceInstance ex of
                  Some error \<Rightarrow>
                    returns (buy_caught error ''Unknown error occurred during buy'') cache
                | None \<Rightarrow>
                   (case buy_prepared tbl ex p of
                      Rejected e \<Rightarrow> returns (failure e) cache
                    | Thrown error \<Rightarrow>
                        returns (buy_caught error ''Unknown error occurred during buy'') cache
                    | Ready a l \<Rightarrow>
                        buy_after_loop
                          (buy_order_loop tbl ex (buy_first_request cache ex p a) a (Suc 0))
                          (mr_events (getPositionMode cache ex))
                          (mr_cache (getPositionMode cache ex))))))"
  by (simp add: buy_def buy_prepared_def buy_first_request_def Let_def
      cong: option.case_cong prep.case_cong)

text \<open>A call of \<open>buy\<close> that reaches the retry loop, and one that does not.\<close>

lemma buy_reached:
  assumes "buy_validated p" and "clients_ready ex" and "buy_prepared tbl ex p = Ready a l"
  shows "buy tbl cache ex p
           = loop_outcome (\<lambda>e. buy_caught e ''Unknown error occurred during buy'')
               (retry_policy 3000 ex (buy_first_request cache ex p a)
                  (buy_later_request tbl ex (buy_first_request cache ex p a) a))
               (getPositionMode cache ex)"
  using assms
  by (simp add: buy_unfold buy_validated_def clients_ready_def buy_order_loop_policy
      buy_after_loop_policy not_less)

lemma buy_not_reached:
  assumes "\<not> (buy_validated p \<and> clients_ready ex \<and> (\<exists>a l. buy_prepared tbl ex p = Ready a l))"
  shows "out_events (buy tbl cache ex p) = []"
    and "\<not> tr_success (out_result (buy tbl cache ex p))"
    and "tr_error (out_result (buy tbl cache ex p)) \<noteq> None"
    and "out_cache (buy tbl cache ex p) = cache"
  using assms
  by (auto simp: buy_unfold buy_validated_def clients_ready_def not_less
      split: option.splits prep.splits)

lemma buy_rejected:
  assumes "buy_validated p" and "clients_ready ex" and "buy_prepared tbl ex p = Rejected e"
  shows "buy tbl cache ex p = returns (failure e) cache"
  using assms
  by (simp add: buy_unfold buy_validated_def clients_ready_def not_less)







lemma shortSell_unfold:
  "shortSell tbl imported cache ex p =
     (if ssp_symbol p = [] \<or> \<not> str_includes (ssp_symbol p) ''/''
      then returns (failure InvalidSymbolFormat) cache
      else if ssp_amount p \<le> 0 then returns (failure ShortAmountInvalid) cache
      else (case ex_ensureTimeSync ex of
              Some error \<Rightarrow> returns (sell_caught error ''Unknown error during short sell'') cache
            | None \<Rightarrow>
               (case ex_getBinanceInstance ex of
                  Some error \<Rightarrow>
                    returns (sell_caught error ''Unknown error during short sell'') cache
                | None \<Rightarrow>
                   if shortSell_adjustedAmount tbl p \<le> 0
                      \<or> shortSell_adjustedAmount tbl p
                           < minAmount_of tbl (replace_slash (ssp_symbol p))
                   then returns (failure (ShortAmountTooSmall (ssp_amount p) (ssp_symbol p)
                                            (minAmount_of tbl (replace_slash (ssp_symbol p)))))
                          cache
                   else (case imported of
                           None \<Rightarrow> unbound_outcome ''Unknown error during short sell'' cache
                         | Some resolve \<Rightarrow>
                             sell_after_loop
                               (sell_order_loop ex
                                  (shortSell_request (mr_mode (resolve cache ex)) (ssp_symbol p)
                                     (shortSell_adjustedAmount tbl p) (ssp_price p)) (Suc 0))
                               (mr_events (resolve cache ex)) (mr_cache (resolve cache ex))
                               ''Unknown error during short sell''))))"
  by (simp add: shortSell_def call_imported_def unbound_outcome_def shortSell_adjustedAmount_def
      Let_def cong: option.case_cong split: option.splits)

lemma shortSell_first_request_eq:
  "shortSell_first_request tbl cache ex p
     = shortSell_request (mr_mode (getPositionMode cache ex)) (ssp_symbol p)
         (shortSell_adjustedAmount tbl p) (ssp_price p)"
  by (simp add: shortSell_first_request_def shortSell_adjustedAmount_def)

lemma shortSell_reached:
  assumes "shortSell_validated p" and "clients_ready ex" and "shortSell_amount_accepted tbl p"
  shows "shortSell tbl (Some getPositionMode) cache ex p
           = loop_outcome (\<lambda>e. sell_caught e ''Unknown error during short sell'')
               (retry_policy 2000 ex (shortSell_first_request tbl cache ex p)
                  (shortSell_first_request tbl cache ex p))
               (getPositionMode cache ex)"
    and "shortSell tbl imported_getPositionMode cache ex p
           = unbound_outcome ''Unknown error during short sell'' cache"
  using assms
  by (auto simp: shortSell_unfold shortSell_validated_def clients_ready_def
      shortSell_amount_accepted_def shortSell_first_request_eq sell_order_loop_policy
      sell_after_loop_policy imported_getPositionMode_def not_less)

lemma shortSell_not_reached:
  assumes "\<not> (shortSell_validated p \<and> clients_ready ex \<and> shortSell_amount_accepted tbl p)"
  shows "out_events (shortSell tbl imported cache ex p) = []"
    and "\<not> tr_success (out_result (shortSell tbl imported cache ex p))"
    and "tr_error (out_result (shortSell tbl imported cache ex p)) \<noteq> None"
    and "out_cache (shortSell tbl imported cache ex p) = cache"
  using assms
  by (auto simp: shortSell_unfold shortSell_validated_def clients_ready_def
      shortSell_amount_accepted_def not_less split: option.splits)

lemma shortSell_unbound:
  "out_events (shortSell tbl imported_getPositionMode cache ex p) = []"
  "\<not> tr_success (out_result (shortSell tbl imported_getPositionMode cache ex p))"
  "tr_error (out_result (shortSell tbl imported_getPositionMode cache ex p)) \<noteq> None"
  "out_cache (shortSell tbl imported_getPositionMode cache ex p) = cache"
  by (auto simp: shortSell_unfold imported_getPositionMode_def split: option.splits)

section \<open>Evaluating the scenarios\<close>

lemma buy_config_BTC:
  "config_of buy_SYMBOL_PRECISION ''BTCUSDT''
     = \<lparr>quantity = 3, price_decimals = 1, minNotional = 100\<rparr>"
  "minAmount_of buy_SYMBOL_PRECISION ''BTCUSDT'' = 1 / 1000"
  "buy_SYMBOL_PRECISION ''BTCUSDT''
     = Some \<lparr>quantity = 3, price_decimals = 1, minNotional = 100\<rparr>"
  by (simp_all add: config_of_def minAmount_of_def buy_SYMBOL_PRECISION_def)

lemma sell_config_BTC:
  "config_of sell_SYMBOL_PRECISION ''BTCUSDT''
     = \<lparr>quantity = 3, price_decimals = 1, minNotional = 100\<rparr>"
  "minAmount_of sell_SYMBOL_PRECISION ''BTCUSDT'' = 1 / 1000"
  by (simp_all add: config_of_def minAmount_of_def sell_SYMBOL_PRECISION_def)

lemma btc_symbol:
  "replace_slash ''BTC/USDT'' = ''BTCUSDT''" "str_includes ''BTC/USDT'' ''/''"
  by (simp_all add: replace_slash_def)


lemma mismatch_error_text:
  "response_or_message mismatch_error = ''Order position side does not match user setting.''"
  "str_includes ''Order position side does not match user setting.''
     ''position side does not match''"
  "\<not> str_includes ''Order position side does not match user setting.'' ''Precision''"
  by (simp_all add: response_or_message_def mismatch_error_def)

lemma filling_exchange_eval:
  "ex_ensureTimeSync filling_exchange = None" "ex_getBinanceInstance filling_exchange = None"
  "ex_positionMode filling_exchange = Some (Inr (Some False))"
  "ex_getPositionModeSdk filling_exchange = None"
  "ex_restPositionSide filling_exchange = Inr (True, Some False)"
  "ex_markPrice filling_exchange = Inr (Fin 50000)"
  "ex_fetchPositions filling_exchange = Inr []"
  "ex_newOrder filling_exchange attempt req = Inr (fill_of ''1'' req)"
  by (simp_all add: filling_exchange_def fill_of_def)

lemma zero_price_exchange_eval:
  "ex_ensureTimeSync zero_price_exchange = None"
  "ex_getBinanceInstance zero_price_exchange = None"
  "ex_positionMode zero_price_exchange = Some (Inr (Some False))"
  "ex_markPrice zero_price_exchange = Inr (Fin 0)"
  "ex_newOrder zero_price_exchange attempt req = Inr (fill_of ''1'' req)"
  by (simp_all add: zero_price_exchange_def filling_exchange_eval)

lemma nan_price_exchange_eval:
  "ex_ensureTimeSync nan_price_exchange = None"
  "ex_getBinanceInstance nan_price_exchange = None"
  "ex_positionMode nan_price_exchange = Some (Inr (Some False))"
  "ex_markPrice nan_price_exchange = Inr NaN"
  "ex_newOrder nan_price_exchange attempt req = Inr (fill_of ''1'' req)"
  by (simp_all add: nan_price_exchange_def filling_exchange_eval)

lemma holding_exchange_eval:
  "ex_ensureTimeSync holding_exchange = None" "ex_getBinanceInstance holding_exchange = None"
  "ex_positionMode holding_exchange = Some (Inr (Some False))"
  "ex_markPrice holding_exchange = Inr (Fin 50000)"
  "ex_fetchPositions holding_exchange
     = Inr [\<lparr>pos_symbol = ''BTCUSDT'', pos_side = ''long'', pos_contracts = 1 / 1000\<rparr>]"
  "ex_newOrder holding_exchange attempt req = Inr (fill_of ''1'' req)"
  by (simp_all add: holding_exchange_def filling_exchange_eval)

lemma dust_exchange_eval:
  "ex_ensureTimeSync dust_exchange = None" "ex_getBinanceInstance dust_exchange = None"
  "ex_positionMode dust_exchange = Some (Inr (Some False))"
  "ex_fetchPositions dust_exchange
     = Inr [\<lparr>pos_symbol = ''BTCUSDT'', pos_side = ''long'', pos_contracts = 1 / 2000\<rparr>]"
  "ex_newOrder dust_exchange attempt req = Inr (fill_of ''1'' req)"
  by (simp_all add: dust_exchange_def filling_exchange_eval)

lemma short_holding_exchange_eval:
  "ex_ensureTimeSync short_holding_exchange = None"
  "ex_getBinanceInstance short_holding_exchange = None"
  "ex_positionMode short_holding_exchange = Some (Inr (Some True))"
  "ex_markPrice short_holding_exchange = Inr (Fin 50000)"
  "ex_fetchPositions short_holding_exchange
     = Inr [\<lparr>pos_symbol = ''BTCUSDT'', pos_side = ''short'', pos_contracts = 2 / 1000\<rparr>]"
  "ex_newOrder short_holding_exchange attempt req = Inr (fill_of ''1'' req)"
  by (simp_all add: short_holding_exchange_def filling_exchange_eval)

lemma offline_exchange_eval:
  "ex_ensureTimeSync offline_exchange = None" "ex_getBinanceInstance offline_exchange = None"
  "ex_positionMode offline_exchange = Some (Inl timeout_error)"
  "ex_getPositionModeSdk offline_exchange = None"
  "ex_restPositionSide offline_exchange = Inl timeout_error"
  "ex_markPrice offline_exchange = Inl timeout_error"
  "ex_fetchPositions offline_exchange = Inl timeout_error"
  "ex_newOrder offline_exchange attempt req = Inl timeout_error"
  by (simp_all add: offline_exchange_def)

lemma late_filling_exchange_eval:
  "ex_ensureTimeSync (late_filling_exchange n) = None"
  "ex_getBinanceInstance (late_filling_exchange n) = None"
  "ex_positionMode (late_filling_exchange n) = Some (Inr (Some False))"
  "ex_markPrice (late_filling_exchange n) = Inr (Fin 50000)"
  "ex_fetchPositions (late_filling_exchange n)
     = Inr [\<lparr>pos_symbol = ''BTCUSDT'', pos_side = ''long'', pos_contracts = 1 / 1000\<rparr>]"
  "ex_newOrder (late_filling_exchange n) attempt req
     = (if attempt < n then Inl timeout_error else Inr (fill_of ''1'' req))"
  by (simp_all add: late_filling_exchange_def holding_exchange_eval fill_of_def)

lemma mismatch_exchange_eval:
  "ex_ensureTimeSync mismatch_exchange = None" "ex_getBinanceInstance mismatch_exchange = None"
  "ex_positionMode mismatch_exchange = Some (Inr (Some True))"
  "ex_fetchPositions mismatch_exchange
     = Inr [\<lparr>pos_symbol = ''BTCUSDT'', pos_side = ''long'', pos_contracts = 1 / 1000\<rparr>]"
  "ex_newOrder mismatch_exchange attempt req
     = (if attempt = 1 then Inl mismatch_error else Inr (fill_of ''2'' req))"
  by (simp_all add: mismatch_exchange_def holding_exchange_eval fill_of_def)

lemma late_mismatch_exchange_eval:
  "ex_ensureTimeSync late_mismatch_exchange = None"
  "ex_getBinanceInstance late_mismatch_exchange = None"
  "ex_positionMode late_mismatch_exchange = Some (Inr (Some True))"
  "ex_fetchPositions late_mismatch_exchange
     = Inr [\<lparr>pos_symbol = ''BTCUSDT'', pos_side = ''long'', pos_contracts = 1 / 1000\<rparr>]"
  "ex_newOrder late_mismatch_exchange attempt req
     = (if attempt = 1 then Inl timeout_error else Inl mismatch_error)"
  by (simp_all add: late_mismatch_exchange_def holding_exchange_eval)

lemma rejecting_exchange_eval:
  "ex_ensureTimeSync rejecting_exchange = None" "ex_getBinanceInstance rejecting_exchange = None"
  "ex_positionMode rejecting_exchange = Some (Inr (Some True))"
  "ex_markPrice rejecting_exchange = Inr (Fin 50000)"
  "ex_fetchPositions rejecting_exchange
     = Inr [\<lparr>pos_symbol = ''BTCUSDT'', pos_side = ''long'', pos_contracts = 1 / 1000\<rparr>]"
  "ex_newOrder rejecting_exchange attempt req = Inl mismatch_error"
  by (simp_all add: rejecting_exchange_def holding_exchange_eval)

lemma unanswering_exchange_eval:
  "ex_ensureTimeSync unanswering_exchange = None"
  "ex_getBinanceInstance unanswering_exchange = None"
  "ex_positionMode unanswering_exchange = Some (Inl timeout_error)"
  "ex_fetchPositions unanswering_exchange
     = Inr [\<lparr>pos_symbol = ''BTCUSDT'', pos_side = ''long'', pos_contracts = 1 / 1000\<rparr>]"
  "ex_newOrder unanswering_exchange attempt req = Inl mismatch_error"
  by (simp_all add: unanswering_exchange_def rejecting_exchange_eval)

lemma methodless_exchange_eval:
  "ex_ensureTimeSync methodless_exchange = None"
  "ex_getBinanceInstance methodless_exchange = None"
  "ex_positionMode methodless_exchange = None"
  "ex_fetchPositions methodless_exchange
     = Inr [\<lparr>pos_symbol = ''BTCUSDT'', pos_side = ''long'', pos_contracts = 1 / 1000\<rparr>]"
  "ex_newOrder methodless_exchange attempt req = Inl mismatch_error"
  by (simp_all add: methodless_exchange_def rejecting_exchange_eval)

text \<open>The resolution of the position mode on these exchanges.\<close>

lemma getPositionMode_answered:
  assumes "ex_getBinanceInstance ex = None" and "ex_ensureTimeSync ex = None"
    and "ex_positionMode ex = Some (Inr flag)"
  shows "getPositionMode None ex
           = \<lparr>mr_mode = mode_of_flag flag, mr_cache = Some (mode_of_flag flag),
              mr_events = [ModeQuery SdkPositionMode]\<rparr>"
  using assms by (simp add: getPositionMode_def getPositionMode_sdk_def)


lemma mode_of_flag_simps [simp]:
  "mode_of_flag (Some True) = DUAL_SIDE" "mode_of_flag (Some False) = ONE_WAY"
  "mode_of_flag None = ONE_WAY"
  by (simp_all add: mode_of_flag_def)

text \<open>The price at which \<open>buy\<close> works on these exchanges.\<close>

lemma buy_currentPrice_eval:
  "ex_markPrice ex = Inr markPrice \<Longrightarrow> buy_currentPrice ex s None = markPrice"
  "p \<noteq> 0 \<Longrightarrow> buy_currentPrice ex s (Some p) = Fin p"
  "buy_currentPrice offline_exchange ''BTCUSDT'' None = Fin 50000"
  by (simp_all add: buy_currentPrice_def buy_fallbackPrice_def buy_fallbackPrices_def
      offline_exchange_eval)

text \<open>The preparation of a purchase of BTC at the price 50000.\<close>

lemma buy_prepare_btc:
  assumes "0 < amount"
  shows "buy_prepare buy_SYMBOL_PRECISION ''BTC/USDT'' amount lev (Fin 50000)
           = Ready (Fin (if 2 / 1000 \<le> amount then of_int \<lfloor>amount * 1000\<rfloor> / 1000
                         else 2 / 1000))
               (Fin lev)"
proof -
  have c: "(0::real) < 50000" by simp
  have m: "0 < minNotional (config_of buy_SYMBOL_PRECISION (replace_slash ''BTC/USDT''))"
    by (simp add: btc_symbol buy_config_BTC)
  note e = buy_prepare_positive [OF c assms m, of lev]
  show ?thesis
  proof (cases "2 / 1000 \<le> amount")
    case True
    then show ?thesis
      unfolding e by (simp add: btc_symbol buy_config_BTC buy_adjustPrecision_def Let_def)
  next
    case False
    then show ?thesis
      unfolding e by (simp add: btc_symbol buy_config_BTC buy_adjustPrecision_def Let_def)
  qed
qed

section \<open>The retry budget\<close>












lemma clients_ready_eval:
  "clients_ready offline_exchange" "clients_ready (late_filling_exchange n)"
  "clients_ready filling_exchange" "clients_ready holding_exchange"
  "clients_ready zero_price_exchange" "clients_ready dust_exchange"
  "clients_ready nan_price_exchange"
  "clients_ready short_holding_exchange" "clients_ready mismatch_exchange"
  "clients_ready late_mismatch_exchange" "clients_ready rejecting_exchange"
  "clients_ready unanswering_exchange" "clients_ready methodless_exchange"
  by (simp_all add: clients_ready_def offline_exchange_eval late_filling_exchange_eval
      filling_exchange_eval holding_exchange_eval zero_price_exchange_eval dust_exchange_eval
      nan_price_exchange_eval
      short_holding_exchange_eval mismatch_exchange_eval late_mismatch_exchange_eval
      rejecting_exchange_eval unanswering_exchange_eval methodless_exchange_eval)


section \<open>A failed resolution of the position mode\<close>

theorem C10_failure_cached_permanently_witness:
  "resolution_failed offline_exchange
   \<and> getPositionMode None offline_exchange
       = \<lparr>mr_mode = ONE_WAY, mr_cache = Some ONE_WAY,
          mr_events = [ModeQuery SdkPositionMode, ModeQuery RestPositionSideDual]\<rparr>
   \<and> getPositionMode (mr_cache (getPositionMode None offline_exchange)) filling_exchange
       = \<lparr>mr_mode = ONE_WAY, mr_cache = Some ONE_WAY, mr_events = []\<rparr>"
proof -
  have f: "resolution_failed offline_exchange"
    by (simp add: resolution_failed_def offline_exchange_def getPositionMode_sdk_def
        getPositionMode_rest_def)
  have g: "getPositionMode None offline_exchange
       = \<lparr>mr_mode = ONE_WAY, mr_cache = Some ONE_WAY,
          mr_events = [ModeQuery SdkPositionMode, ModeQuery RestPositionSideDual]\<rparr>"
    by (simp add: getPositionMode_def offline_exchange_def getPositionMode_sdk_def
        getPositionMode_rest_def)
  show ?thesis
    using f g C10_failure_cached_permanently [OF f, of filling_exchange] by simp
qed

section \<open>The orders of \<open>buy\<close> and of \<open>shortSell\<close> and the minimum notional\<close>

text \<open>Whatever the price, an amount that leaves the preparation of \<open>buy\<close> has passed the
  checks of lines 331-345.\<close>

lemma buy_prepare_Ready_checked:
  assumes "buy_prepare tbl symbol amount lev price = Ready a l"
  shows "buy_checkMinNotional tbl a (replace_slash symbol) price = NotionalValid"
    and "\<not> js_le a (Fin 0)" and "\<not> js_lt a (Fin (minAmount_of tbl (replace_slash symbol)))"
  using assms
  by (auto simp: buy_prepare_def buy_finalChecks_def Let_def
      split: prep.splits if_splits notional_check.splits)

lemma buy_checkMinNotional_valid:
  "(buy_checkMinNotional tbl a s price = NotionalValid)
     = (\<not> js_lt (js_mul a price) (Fin (minNotional (config_of tbl s))))"
  by (simp add: buy_checkMinNotional_def Let_def)

lemma buy_prepared_positive:
  assumes "buy_currentPrice ex (replace_slash (bp_symbol p)) (bp_price p) = Fin cp"
    and "0 < cp" and "0 < bp_amount p"
    and "0 < minNotional (config_of tbl (replace_slash (bp_symbol p)))"
    and "buy_prepared tbl ex p = Ready a l"
  shows "\<exists>q. a = Fin q \<and> l = Fin (case bp_leverage p of None \<Rightarrow> 10 | Some x \<Rightarrow> x) \<and> 0 < q
           \<and> on_grid (quantity (config_of tbl (replace_slash (bp_symbol p)))) q
           \<and> minAmount_of tbl (replace_slash (bp_symbol p)) \<le> q
           \<and> minNotional (config_of tbl (replace_slash (bp_symbol p))) \<le> q * cp"
  using buy_prepare_positive_Ready [OF assms(2,3,4)] assms(1,5)
  by (simp add: buy_prepared_def)

lemma buy_request_simps [simp]:
  "op_quantity (or_params (buy_request m s a pr)) = a"
  "or_symbol (buy_request m s a pr) = replace_slash s"
  "or_side (buy_request m s a pr) = BUY"
  "op_positionSide (or_params (buy_request m s a pr)) = (if m = DUAL_SIDE then Some LONG else None)"
  "op_reduceOnly (or_params (buy_request m s a pr)) = None"
  by (simp_all add: buy_request_def)

lemma buy_readjusted_simps [simp]:
  "op_quantity (or_params (buy_readjusted tbl req a))
     = buy_adjustPrecision_num tbl (js_add a (Fin (minAmount_of tbl (or_symbol req))))
         (or_symbol req)"
  "or_symbol (buy_readjusted tbl req a) = or_symbol req"
  "or_side (buy_readjusted tbl req a) = or_side req"
  "op_positionSide (or_params (buy_readjusted tbl req a)) = op_positionSide (or_params req)"
  "op_reduceOnly (or_params (buy_readjusted tbl req a)) = op_reduceOnly (or_params req)"
  by (simp_all add: buy_readjusted_def)

lemma buy_later_request_cases:
  "buy_later_request tbl ex req a = req \<or> buy_later_request tbl ex req a = buy_readjusted tbl req a"
  by (simp add: buy_later_request_def split: sum.splits)

text \<open>The quantity after the re-adjustment for a \<open>Precision\<close> error is not below the
  quantity before.\<close>

lemma buy_readjusted_quantity:
  assumes "on_grid (quantity (config_of tbl (or_symbol req))) q" and "0 < q"
  shows "\<exists>q'. op_quantity (or_params (buy_readjusted tbl req (Fin q))) = Fin q' \<and> q \<le> q'"
proof -
  let ?s = "or_symbol req"
  have m: "0 \<le> minAmount_of tbl ?s" using minAmount_of_pos [of tbl ?s] by simp
  then have "0 \<le> q + minAmount_of tbl ?s" using assms(2) by simp
  then have "buy_adjustPrecision_num tbl (Fin (q + minAmount_of tbl ?s)) ?s
               = Fin (buy_adjustPrecision tbl (q + minAmount_of tbl ?s) ?s)"
    by (rule buy_adjustPrecision_num_Fin)
  moreover have "q \<le> buy_adjustPrecision tbl (q + minAmount_of tbl ?s) ?s"
    unfolding buy_adjustPrecision_def Let_def using assms(1) m by (rule on_grid_readjust)
  ultimately show ?thesis by (simp add: js_add_Fin)
qed

lemma buy_submitted_notional:
  assumes price: "buy_currentPrice ex (replace_slash (bp_symbol p)) (bp_price p) = Fin cp"
    and cp: "0 < cp"
    and m: "0 < minNotional (config_of tbl (replace_slash (bp_symbol p)))"
    and req: "req \<in> set (submitted (out_events (buy tbl cache ex p)))"
  shows "\<exists>q. op_quantity (or_params req) = Fin q
           \<and> minNotional (config_of tbl (replace_slash (bp_symbol p))) \<le> q * cp"
proof (cases "buy_validated p \<and> clients_ready ex \<and> (\<exists>a l. buy_prepared tbl ex p = Ready a l)")
  case False
  then show ?thesis using req by (simp add: buy_not_reached submitted_def)
next
  case True
  then obtain a l where v: "buy_validated p" and c: "clients_ready ex"
    and r: "buy_prepared tbl ex p = Ready a l"
    by blast
  let ?bs = "replace_slash (bp_symbol p)"
  let ?r1 = "buy_first_request cache ex p a"
  have am: "0 < bp_amount p" using v by (simp add: buy_validated_def)
  from buy_prepared_positive [OF price cp am m r] obtain q where
    a: "a = Fin q" and q: "0 < q" and g: "on_grid (quantity (config_of tbl ?bs)) q"
    and w: "minNotional (config_of tbl ?bs) \<le> q * cp"
    by blast
  have s: "or_symbol ?r1 = ?bs" by (simp add: buy_first_request_def)
  have "req \<in> {?r1, buy_later_request tbl ex ?r1 a}"
    using req retry_policy_events(6) [of 3000 ex ?r1 "buy_later_request tbl ex ?r1 a"]
    by (auto simp: buy_reached [OF v c r] submitted_append getPositionMode_events)
  then have "req = ?r1 \<or> req = buy_readjusted tbl ?r1 a"
    using buy_later_request_cases [of tbl ex ?r1 a] by auto
  then show ?thesis
  proof
    assume "req = ?r1"
    then show ?thesis using a w by (simp add: buy_first_request_def)
  next
    assume e: "req = buy_readjusted tbl ?r1 a"
    from buy_readjusted_quantity [of tbl ?r1 q] g q s obtain q' where
      q': "op_quantity (or_params (buy_readjusted tbl ?r1 (Fin q))) = Fin q'" and le: "q \<le> q'"
      by auto
    have "q * cp \<le> q' * cp" using le cp by simp
    then show ?thesis using q' w e a by auto
  qed
qed

lemma buy_submits_iff:
  "(submitted (out_events (buy tbl cache ex p)) \<noteq> [])
     = (buy_validated p \<and> clients_ready ex \<and> (\<exists>a l. buy_prepared tbl ex p = Ready a l))"
proof (cases "buy_validated p \<and> clients_ready ex \<and> (\<exists>a l. buy_prepared tbl ex p = Ready a l)")
  case False
  then show ?thesis by (simp add: buy_not_reached submitted_def)
next
  case True
  then obtain a l where "buy_validated p" "clients_ready ex" "buy_prepared tbl ex p = Ready a l"
    by blast
  then show ?thesis
    using True
    by (simp add: buy_reached submitted_append getPositionMode_events retry_policy_events)
qed

lemma buy_thrown:
  assumes "buy_validated p" and "clients_ready ex" and "buy_prepared tbl ex p = Thrown error"
  shows "buy tbl cache ex p
           = returns (buy_caught error ''Unknown error occurred during buy'') cache"
  using assms
  by (simp add: buy_unfold buy_validated_def clients_ready_def not_less)

lemma shortSell_request_simps [simp]:
  "op_quantity (or_params (shortSell_request m s a pr)) = Fin a"
  "or_symbol (shortSell_request m s a pr) = replace_slash s"
  "or_side (shortSell_request m s a pr) = SELL"
  "op_positionSide (or_params (shortSell_request m s a pr))
     = (if m = DUAL_SIDE then Some SHORT else None)"
  "op_reduceOnly (or_params (shortSell_request m s a pr)) = None"
  by (simp_all add: shortSell_request_def)

lemma shortSell_submitted:
  assumes "req \<in> set (submitted (out_events (shortSell tbl (Some getPositionMode) cache ex s)))"
  shows "req = shortSell_first_request tbl cache ex s"
proof (cases "shortSell_validated s \<and> clients_ready ex \<and> shortSell_amount_accepted tbl s")
  case False
  then show ?thesis using assms by (simp add: shortSell_not_reached submitted_def)
next
  case True
  then show ?thesis
    using assms retry_policy_events(6) [of 2000 ex "shortSell_first_request tbl cache ex s"
        "shortSell_first_request tbl cache ex s"]
    by (auto simp: shortSell_reached submitted_append getPositionMode_events)
qed

lemma shortSell_submits_iff:
  "(submitted (out_events (shortSell tbl (Some getPositionMode) cache ex s)) \<noteq> [])
     = (shortSell_validated s \<and> clients_ready ex \<and> shortSell_amount_accepted tbl s)"
proof (cases "shortSell_validated s \<and> clients_ready ex \<and> shortSell_amount_accepted tbl s")
  case False
  then show ?thesis by (simp add: shortSell_not_reached submitted_def)
next
  case True
  then show ?thesis
    by (simp add: shortSell_reached submitted_append getPositionMode_events retry_policy_events)
qed

text \<open>
  C3 (as amended).  At a price that is a positive number, and for a rule with a positive
  \<open>minNotional\<close>, every order that \<open>buy\<close> submits, the first and the one re-adjusted after a
  \<open>Precision\<close> error, has a quantity that is a number and is worth at least \<open>minNotional\<close>
  at that price.  Whatever the price, the amount with which \<open>buy\<close> enters its retry loop has
  passed the check \<open>amount \<times> price < minNotional\<close> of lines 338-345 in the arithmetic of
  JavaScript, and a call whose preparation ends in a rejection or in a \<open>throw\<close> returns
  \<open>success: false\<close> and submits nothing; \<open>buy\<close> submits an order exactly when its parameters
  pass the checks, its clients are ready and the preparation ends with an amount.
  \<open>shortSell\<close> reads no \<open>minNotional\<close>: once the imported name \<open>getPositionMode\<close> resolves,
  it submits an order exactly when the parameters pass the checks, the clients are ready and
  the quantized amount is positive and not below the minimal unit, and the quantity of every
  order is the quantized amount; with the name bound to nothing it submits nothing.
\<close>

theorem C3_buy_orders_meet_minNotional:
  "(buy_currentPrice ex (replace_slash (bp_symbol p)) (bp_price p) = Fin cp \<and> 0 < cp
      \<and> 0 < minNotional (config_of tbl (replace_slash (bp_symbol p))) \<longrightarrow>
      (\<forall>req \<in> set (submitted (out_events (buy tbl cache ex p))).
          \<exists>q. op_quantity (or_params req) = Fin q
             \<and> minNotional (config_of tbl (replace_slash (bp_symbol p))) \<le> q * cp))
   \<and> (buy_prepared tbl ex p = Ready a l \<longrightarrow>
        \<not> js_lt (js_mul a (buy_currentPrice ex (replace_slash (bp_symbol p)) (bp_price p)))
             (Fin (minNotional (config_of tbl (replace_slash (bp_symbol p))))))
   \<and> (buy_validated p \<and> clients_ready ex \<and> buy_prepared tbl ex p = Rejected e \<longrightarrow>
        buy tbl cache ex p = returns (failure e) cache)
   \<and> (buy_validated p \<and> clients_ready ex \<and> buy_prepared tbl ex p = Thrown error \<longrightarrow>
        buy tbl cache ex p
          = returns (buy_caught error ''Unknown error occurred during buy'') cache)
   \<and> ((submitted (out_events (buy tbl cache ex p)) \<noteq> [])
        = (buy_validated p \<and> clients_ready ex \<and> (\<exists>a l. buy_prepared tbl ex p = Ready a l)))
   \<and> (\<forall>req \<in> set (submitted (out_events (shortSell tbl' (Some getPositionMode) cache ex s))).
         op_quantity (or_params req) = Fin (shortSell_adjustedAmount tbl' s))
   \<and> ((submitted (out_events (shortSell tbl' (Some getPositionMode) cache ex s)) \<noteq> [])
        = (shortSell_validated s \<and> clients_ready ex \<and> shortSell_amount_accepted tbl' s))
   \<and> submitted (out_events (shortSell tbl' imported_getPositionMode cache ex s)) = []"
proof -
  have 1: "buy_currentPrice ex (replace_slash (bp_symbol p)) (bp_price p) = Fin cp \<and> 0 < cp
      \<and> 0 < minNotional (config_of tbl (replace_slash (bp_symbol p))) \<longrightarrow>
      (\<forall>req \<in> set (submitted (out_events (buy tbl cache ex p))).
          \<exists>q. op_quantity (or_params req) = Fin q
             \<and> minNotional (config_of tbl (replace_slash (bp_symbol p))) \<le> q * cp)"
    using buy_submitted_notional [of ex p cp tbl _ cache] by blast
  have 2: "buy_prepared tbl ex p = Ready a l \<longrightarrow>
        \<not> js_lt (js_mul a (buy_currentPrice ex (replace_slash (bp_symbol p)) (bp_price p)))
             (Fin (minNotional (config_of tbl (replace_slash (bp_symbol p)))))"
    using buy_prepare_Ready_checked(1) buy_checkMinNotional_valid
    by (simp add: buy_prepared_def)
  have 6: "\<forall>req \<in> set (submitted (out_events (shortSell tbl' (Some getPositionMode) cache ex s))).
         op_quantity (or_params req) = Fin (shortSell_adjustedAmount tbl' s)"
  proof
    fix req
    assume "req \<in> set (submitted (out_events (shortSell tbl' (Some getPositionMode) cache ex s)))"
    then have "req = shortSell_first_request tbl' cache ex s" by (rule shortSell_submitted)
    then show "op_quantity (or_params req) = Fin (shortSell_adjustedAmount tbl' s)"
      by (simp add: shortSell_first_request_eq)
  qed
  have 8: "submitted (out_events (shortSell tbl' imported_getPositionMode cache ex s)) = []"
    by (simp add: shortSell_unbound submitted_def)
  show ?thesis
    using 1 2 6 8 buy_rejected [of p ex tbl e cache] buy_thrown [of p ex tbl error cache]
      buy_submits_iff [of tbl cache ex p] shortSell_submits_iff [of tbl' cache ex s]
    by blast
qed

lemma retry_policy_first:
  "ex_newOrder ex (Suc 0) r1 = Inr d \<Longrightarrow> retry_policy b ex r1 r2 = (Inr d, [NewOrder r1])"
  by (simp add: retry_policy_def)

lemmas buy_steps_def =
  buy_prepare_def buy_minNotionalStep_def buy_smallOrderStep_def buy_finalChecks_def
  buy_checkMinNotional_def buy_smartAdjustOrderForMinNotional_num_def
  buy_adjustPrecision_num_def

lemmas js_arith_def =
  js_mul_def js_div_def js_add_def js_floor_def js_ceil_def js_lt_def js_le_def js_eq_def
  js_min_def js_signed_def js_infinity_def

text \<open>Purchases of BTC on the exchange that marks it at 50000: 0.0004 BTC, below the minimal
  unit; 0.01 BTC at a negative limit price; and 0.01 BTC and 0.0004 BTC when the mark price is
  \<open>0\<close> or is not a number.\<close>

lemma buy_btc_fields:
  "bp_symbol (buy_btc amount lev pr) = ''BTC/USDT''" "bp_amount (buy_btc amount lev pr) = amount"
  "bp_leverage (buy_btc amount lev pr) = Some lev" "bp_price (buy_btc amount lev pr) = pr"
  by (simp_all add: buy_btc_def)

lemma buy_btc_validated: "0 < amount \<Longrightarrow> 1 \<le> lev \<Longrightarrow> lev \<le> 30 \<Longrightarrow> buy_validated (buy_btc amount lev pr)"
  by (simp add: buy_validated_def buy_btc_def btc_symbol)

lemma buy_btc_small_prepared:
  "buy_prepared buy_SYMBOL_PRECISION filling_exchange (buy_btc (1 / 2500) 10 None)
     = Ready (Fin (1 / 500)) (Fin 10)"
  by (simp add: buy_prepared_def buy_btc_def btc_symbol buy_currentPrice_eval
      filling_exchange_eval buy_prepare_btc)

lemma buy_btc_negative_prepared:
  "buy_prepared buy_SYMBOL_PRECISION filling_exchange (buy_btc (1 / 100) 5 (Some (- 50000)))
     = Rejected (InvalidAdjustedAmount (Fin (- (1 / 500))) ''BTC/USDT'' (1 / 1000) (1 / 100))"
  by (simp add: buy_prepared_def buy_btc_def btc_symbol buy_currentPrice_eval buy_steps_def
      js_arith_def buy_config_BTC Let_def)

lemma buy_btc_zero_prepared:
  "buy_prepared buy_SYMBOL_PRECISION zero_price_exchange (buy_btc (1 / 100) 5 None)
     = Ready PosInf (Fin 5)"
  by (simp add: buy_prepared_def buy_btc_def btc_symbol buy_currentPrice_eval
      zero_price_exchange_eval buy_steps_def js_arith_def buy_config_BTC Let_def)

lemma buy_btc_nan_prepared:
  "buy_prepared buy_SYMBOL_PRECISION nan_price_exchange (buy_btc (1 / 2500) 10 None)
     = Rejected (SuggestedLeverageExceedsLimit (Fin 0) ''BTC/USDT'' (1 / 1000) NaN)"
  by (simp add: buy_prepared_def buy_btc_def btc_symbol buy_currentPrice_eval
      nan_price_exchange_eval buy_steps_def js_arith_def buy_config_BTC Let_def)

lemma buy_filled_first:
  assumes "buy_validated p" and "clients_ready ex" and "buy_prepared tbl ex p = Ready a l"
    and "ex_newOrder ex (Suc 0) (buy_first_request cache ex p a) = Inr d"
  shows "buy tbl cache ex p
           = \<lparr>out_result = filled d,
              out_events = mr_events (getPositionMode cache ex)
                             @ [NewOrder (buy_first_request cache ex p a)],
              out_cache = mr_cache (getPositionMode cache ex)\<rparr>"
  using assms by (simp add: buy_reached retry_policy_first loop_outcome_def)

lemma buy_btc_small:
  "buy buy_SYMBOL_PRECISION None filling_exchange (buy_btc (1 / 2500) 10 None)
     = \<lparr>out_result
          = filled (fill_of ''1'' (buy_request ONE_WAY ''BTC/USDT'' (Fin (1 / 500)) None)),
        out_events = [ModeQuery SdkPositionMode,
                      NewOrder (buy_request ONE_WAY ''BTC/USDT'' (Fin (1 / 500)) None)],
        out_cache = Some ONE_WAY\<rparr>"
proof -
  let ?p = "buy_btc (1 / 2500) 10 None"
  have r: "buy_first_request None filling_exchange ?p (Fin (1 / 500))
             = buy_request ONE_WAY ''BTC/USDT'' (Fin (1 / 500)) None"
    by (simp add: buy_first_request_def buy_btc_def getPositionMode_answered
        filling_exchange_eval)
  have v: "buy_validated ?p" by (simp add: buy_btc_validated)
  have o: "ex_newOrder filling_exchange (Suc 0)
             (buy_first_request None filling_exchange ?p (Fin (1 / 500)))
           = Inr (fill_of ''1'' (buy_first_request None filling_exchange ?p (Fin (1 / 500))))"
    by (simp add: filling_exchange_eval)
  show ?thesis
    unfolding buy_filled_first [OF v clients_ready_eval(3) buy_btc_small_prepared o]
    by (simp add: r filling_exchange_eval getPositionMode_answered)
qed

lemma buy_btc_zero:
  "buy buy_SYMBOL_PRECISION None zero_price_exchange (buy_btc (1 / 100) 5 None)
     = \<lparr>out_result = filled (fill_of ''1'' (buy_request ONE_WAY ''BTC/USDT'' PosInf None)),
        out_events = [ModeQuery SdkPositionMode,
                      NewOrder (buy_request ONE_WAY ''BTC/USDT'' PosInf None)],
        out_cache = Some ONE_WAY\<rparr>"
proof -
  let ?p = "buy_btc (1 / 100) 5 None"
  have r: "buy_first_request None zero_price_exchange ?p PosInf
             = buy_request ONE_WAY ''BTC/USDT'' PosInf None"
    by (simp add: buy_first_request_def buy_btc_def getPositionMode_answered
        zero_price_exchange_eval)
  have v: "buy_validated ?p" by (simp add: buy_btc_validated)
  have o: "ex_newOrder zero_price_exchange (Suc 0)
             (buy_first_request None zero_price_exchange ?p PosInf)
           = Inr (fill_of ''1'' (buy_first_request None zero_price_exchange ?p PosInf))"
    by (simp add: zero_price_exchange_eval)
  show ?thesis
    unfolding buy_filled_first [OF v clients_ready_eval(5) buy_btc_zero_prepared o]
    by (simp add: r zero_price_exchange_eval getPositionMode_answered)
qed

text \<open>A short sale of 0.001 BTC at the limit price 50000.\<close>

lemma short_btc_unit_eval:
  "shortSell_validated (short_btc (1 / 1000) pr)"
  "shortSell_adjustedAmount sell_SYMBOL_PRECISION (short_btc (1 / 1000) pr) = 1 / 1000"
  "shortSell_amount_accepted sell_SYMBOL_PRECISION (short_btc (1 / 1000) pr)"
  "shortSell_first_request sell_SYMBOL_PRECISION None filling_exchange (short_btc (1 / 1000) pr)
     = shortSell_request ONE_WAY ''BTC/USDT'' (1 / 1000) pr"
  by (simp_all add: shortSell_validated_def short_btc_def btc_symbol
      shortSell_amount_accepted_def shortSell_adjustedAmount_def sell_adjustPrecision_def
      sell_config_BTC shortSell_first_request_def filling_exchange_eval
      getPositionMode_answered Let_def)

lemma short_btc_unit:
  "shortSell sell_SYMBOL_PRECISION (Some getPositionMode) None filling_exchange
       (short_btc (1 / 1000) pr)
     = \<lparr>out_result = filled (fill_of ''1'' (shortSell_request ONE_WAY ''BTC/USDT'' (1 / 1000) pr)),
        out_events = [ModeQuery SdkPositionMode,
                      NewOrder (shortSell_request ONE_WAY ''BTC/USDT'' (1 / 1000) pr)],
        out_cache = Some ONE_WAY\<rparr>"
  by (simp add: shortSell_reached short_btc_unit_eval clients_ready_eval retry_policy_first
      loop_outcome_def filling_exchange_eval getPositionMode_answered)

theorem C3_buy_orders_meet_minNotional_witness:
  "submitted (out_events (buy buy_SYMBOL_PRECISION None filling_exchange
       (buy_btc (1 / 2500) 10 None)))
     = [buy_request ONE_WAY ''BTC/USDT'' (Fin (1 / 500)) None]
   \<and> buy_currentPrice filling_exchange ''BTCUSDT'' None = Fin 50000
   \<and> minNotional (config_of buy_SYMBOL_PRECISION ''BTCUSDT'') = 100
   \<and> (100 :: real) \<le> 1 / 500 * 50000
   \<and> buy buy_SYMBOL_PRECISION None filling_exchange (buy_btc (1 / 100) 5 (Some (- 50000)))
       = returns (failure (InvalidAdjustedAmount (Fin (- (1 / 500))) ''BTC/USDT'' (1 / 1000)
                             (1 / 100))) None
   \<and> submitted (out_events (shortSell sell_SYMBOL_PRECISION (Some getPositionMode) None
         filling_exchange (short_btc (1 / 1000) None)))
       = [shortSell_request ONE_WAY ''BTC/USDT'' (1 / 1000) None]
   \<and> submitted (out_events (shortSell sell_SYMBOL_PRECISION imported_getPositionMode None
         filling_exchange (short_btc (1 / 1000) None))) = []"
proof -
  let ?p = "buy_btc (1 / 2500) 10 None"
  let ?n = "buy_btc (1 / 100) 5 (Some (- 50000))"
  let ?e = "InvalidAdjustedAmount (Fin (- (1 / 500))) ''BTC/USDT'' (1 / 1000) (1 / 100)"
  have sub: "submitted (out_events (buy buy_SYMBOL_PRECISION None filling_exchange ?p))
               = [buy_request ONE_WAY ''BTC/USDT'' (Fin (1 / 500)) None]"
    by (simp add: buy_btc_small submitted_def)
  have ssub: "submitted (out_events (shortSell sell_SYMBOL_PRECISION (Some getPositionMode) None
         filling_exchange (short_btc (1 / 1000) None)))
       = [shortSell_request ONE_WAY ''BTC/USDT'' (1 / 1000) None]"
    by (simp add: short_btc_unit submitted_def)
  have pr: "buy_currentPrice filling_exchange ''BTCUSDT'' None = Fin 50000"
    by (simp add: buy_currentPrice_eval filling_exchange_eval)
  show ?thesis
    using C3_buy_orders_meet_minNotional [of filling_exchange ?p 50000 buy_SYMBOL_PRECISION None
        "Fin (1 / 500)" "Fin 10" ?e "type_error []" sell_SYMBOL_PRECISION
        "short_btc (1 / 1000) None"]
      C3_buy_orders_meet_minNotional [of filling_exchange ?n 50000 buy_SYMBOL_PRECISION None
        "Fin (1 / 500)" "Fin 10" ?e "type_error []" sell_SYMBOL_PRECISION
        "short_btc (1 / 1000) None"]
    by (simp add: sub ssub pr buy_btc_fields btc_symbol buy_config_BTC buy_btc_validated
        clients_ready_eval buy_btc_negative_prepared)
qed

text \<open>
  C3 as stated fails.  Once the imported name resolves, \<open>shortSell\<close> submits a short of
  0.001 BTC at the limit price 50000, which is worth 50, below the \<open>minNotional\<close> of 100.
  And in the sources as they are, \<open>buy\<close> at a mark price of \<open>0\<close> submits an order whose
  quantity is \<open>Infinity\<close>: its notional \<open>Infinity \<times> 0\<close> is \<open>NaN\<close>, which is not at least
  100.
\<close>

theorem C3_orders_below_minNotional_counterexample:
  "submitted (out_events (shortSell sell_SYMBOL_PRECISION (Some getPositionMode) None
       filling_exchange (short_btc (1 / 1000) (Some 50000))))
     = [shortSell_request ONE_WAY ''BTC/USDT'' (1 / 1000) (Some 50000)]
   \<and> op_quantity (or_params (shortSell_request ONE_WAY ''BTC/USDT'' (1 / 1000) (Some 50000)))
       = Fin (1 / 1000)
   \<and> op_price (or_params (shortSell_request ONE_WAY ''BTC/USDT'' (1 / 1000) (Some 50000)))
       = Some 50000
   \<and> minNotional (config_of sell_SYMBOL_PRECISION ''BTCUSDT'') = 100
   \<and> \<not> (100 :: real) \<le> 1 / 1000 * 50000
   \<and> submitted (out_events (buy buy_SYMBOL_PRECISION None zero_price_exchange
         (buy_btc (1 / 100) 5 None)))
       = [buy_request ONE_WAY ''BTC/USDT'' PosInf None]
   \<and> op_quantity (or_params (buy_request ONE_WAY ''BTC/USDT'' PosInf None)) = PosInf
   \<and> buy_currentPrice zero_price_exchange ''BTCUSDT'' None = Fin 0
   \<and> minNotional (config_of buy_SYMBOL_PRECISION ''BTCUSDT'') = 100
   \<and> js_mul PosInf (Fin 0) = NaN
   \<and> \<not> js_le (Fin 100) (js_mul PosInf (Fin 0))"
  by (simp add: short_btc_unit buy_btc_zero submitted_def shortSell_request_def truthy_def
      sell_config_BTC buy_config_BTC buy_currentPrice_eval zero_price_exchange_eval
      js_special)

section \<open>The small-amount escalation\<close>














end
